theory Spec2Isabelle
  imports Main "HOL-Library.Word"
begin

unbundle bit_operations_syntax

section \<open>The machine: a 32-bit byte-addressed memory\<close>

text \<open>
  The allocators are written for the 32-bit build of the malloc lab: a pointer, a
  \<open>size_t\<close>, an \<open>unsigned int\<close> and an \<open>int\<close> are all four bytes wide, so the two
  link slots \<open>GET_PRED\<close> (offset 0) and \<open>GET_SUCC\<close> (offset \<open>WSIZE\<close>) of a free block do not
  overlap.  Addresses and sizes are \<open>32 word\<close>; arithmetic wraps as in C.  Memory is a
  function from addresses to bytes; a word is stored little-endian.
\<close>

type_synonym addr = "32 word"
type_synonym byte = "8 word"
type_synonym word32 = "32 word"

definition load32 :: "(addr \<Rightarrow> byte) \<Rightarrow> addr \<Rightarrow> word32" where
  "load32 m p = ucast (m p) OR push_bit 8 (ucast (m (p + 1)))
                OR push_bit 16 (ucast (m (p + 2))) OR push_bit 24 (ucast (m (p + 3)))"

definition store32 :: "(addr \<Rightarrow> byte) \<Rightarrow> addr \<Rightarrow> word32 \<Rightarrow> (addr \<Rightarrow> byte)" where
  "store32 m p v = (\<lambda>a. if a = p then ucast v
                        else if a = p + 1 then ucast (drop_bit 8 v)
                        else if a = p + 2 then ucast (drop_bit 16 v)
                        else if a = p + 3 then ucast (drop_bit 24 v)
                        else m a)"

text \<open>\<open>copy_bytes m dst src n\<close> is the memory after \<open>memcpy(dst, src, n)\<close>: the \<open>n\<close> bytes from
  \<open>dst\<close> on hold what the \<open>n\<close> bytes from \<open>src\<close> on held before.\<close>

definition copy_bytes :: "(addr \<Rightarrow> byte) \<Rightarrow> addr \<Rightarrow> addr \<Rightarrow> word32 \<Rightarrow> (addr \<Rightarrow> byte)" where
  "copy_bytes m dst src n = (\<lambda>a. if a - dst < n then m (src + (a - dst)) else m a)"

text \<open>What can go wrong: an access outside the bytes the memory library has handed out,
  and a loop that does not come to an end within the steps it is given.\<close>

datatype error = SegFault | OutOfFuel

fun bindE :: "error + 'a \<Rightarrow> ('a \<Rightarrow> error + 'b) \<Rightarrow> error + 'b" where
  "bindE (Inl e) f = Inl e"
| "bindE (Inr x) f = f x"

text \<open>The state: the memory, the memory library's three pointers, and the one global of
  the allocator (\<open>free_listp\<close> in mm-explicit.c, \<open>heap_listp\<close> in the two segregated files).\<close>

record heap =
  mem :: "addr \<Rightarrow> byte"
  mem_heap :: addr
  mem_brk :: addr
  mem_max_addr :: addr
  listp :: addr

definition in_heap :: "heap \<Rightarrow> addr \<Rightarrow> nat \<Rightarrow> bool" where
  "in_heap s p n = (unat (mem_heap s) \<le> unat p \<and> unat p + n \<le> unat (mem_brk s))"

text \<open>Modelled from the spec: the memory library (memlib.c) is not among the sources.  Its
  \<open>extend(bytes)\<close> appends \<open>bytes\<close> at the current end of the region and returns the address
  of the first new byte, or a sentinel on failure; mm-explicit.c compares the result with
  \<open>(void *)-1\<close>.  The owned bytes are those from \<open>base()\<close> up to \<open>limit()\<close>.\<close>

definition mem_sbrk :: "heap \<Rightarrow> word32 \<Rightarrow> addr \<times> heap" where
  "mem_sbrk s incr =
     (if unat (mem_brk s) + unat incr \<le> unat (mem_max_addr s)
      then (mem_brk s, s\<lparr>mem_brk := mem_brk s + incr\<rparr>)
      else (- 1, s))"

text \<open>Modelled from the spec: the C library's \<open>memcpy\<close>, which is not among the sources.  It
  touches nothing when \<open>n\<close> is 0, and otherwise reads \<open>n\<close> bytes and writes \<open>n\<close> bytes.\<close>

definition memcpy :: "heap \<Rightarrow> addr \<Rightarrow> addr \<Rightarrow> word32 \<Rightarrow> error + heap" where
  "memcpy s dst src n =
     (if n = 0 then Inr s
      else if in_heap s dst (unat n) \<and> in_heap s src (unat n)
      then Inr (s\<lparr>mem := copy_bytes (mem s) dst src n\<rparr>)
      else Inl SegFault)"

section \<open>Constants and macros shared by the three files\<close>

abbreviation WSIZE :: word32 where "WSIZE \<equiv> 4"
abbreviation DSIZE :: word32 where "DSIZE \<equiv> 8"
abbreviation CHUNKSIZE :: word32 where "CHUNKSIZE \<equiv> 4096"
abbreviation SEGREGATED_LIST_SIZE :: int where "SEGREGATED_LIST_SIZE \<equiv> 20"
abbreviation NULL :: addr where "NULL \<equiv> 0"

definition ALIGN :: "word32 \<Rightarrow> word32" where
  "ALIGN sz = (sz + 7) AND NOT 7"

definition MAX_w :: "word32 \<Rightarrow> word32 \<Rightarrow> word32" where
  "MAX_w x y = (if x > y then x else y)"

definition PACK :: "word32 \<Rightarrow> word32 \<Rightarrow> word32" where
  "PACK sz alloc = sz OR alloc"

definition GET :: "heap \<Rightarrow> addr \<Rightarrow> error + word32" where
  "GET s p = (if in_heap s p 4 then Inr (load32 (mem s) p) else Inl SegFault)"

definition PUT :: "heap \<Rightarrow> addr \<Rightarrow> word32 \<Rightarrow> error + heap" where
  "PUT s p v = (if in_heap s p 4 then Inr (s\<lparr>mem := store32 (mem s) p v\<rparr>) else Inl SegFault)"

definition GET_SIZE :: "heap \<Rightarrow> addr \<Rightarrow> error + word32" where
  "GET_SIZE s p = bindE (GET s p) (\<lambda>w. Inr (w AND NOT 7))"

definition GET_ALLOC :: "heap \<Rightarrow> addr \<Rightarrow> error + word32" where
  "GET_ALLOC s p = bindE (GET s p) (\<lambda>w. Inr (w AND 1))"

definition HDRP :: "addr \<Rightarrow> addr" where
  "HDRP bp = bp - WSIZE"

definition FTRP :: "heap \<Rightarrow> addr \<Rightarrow> error + addr" where
  "FTRP s bp = bindE (GET_SIZE s (HDRP bp)) (\<lambda>sz. Inr (bp + sz - DSIZE))"

definition NEXT_BLKP :: "heap \<Rightarrow> addr \<Rightarrow> error + addr" where
  "NEXT_BLKP s bp = bindE (GET_SIZE s (bp - WSIZE)) (\<lambda>sz. Inr (bp + sz))"

definition PREV_BLKP :: "heap \<Rightarrow> addr \<Rightarrow> error + addr" where
  "PREV_BLKP s bp = bindE (GET_SIZE s (bp - DSIZE)) (\<lambda>sz. Inr (bp - sz))"

text \<open>The link slots of a free block, read (\<open>GET_PRED(bp)\<close> as a value) and written
  (\<open>GET_PRED(bp) = v\<close>).\<close>

definition GET_PRED :: "heap \<Rightarrow> addr \<Rightarrow> error + addr" where
  "GET_PRED s bp = GET s bp"

definition GET_SUCC :: "heap \<Rightarrow> addr \<Rightarrow> error + addr" where
  "GET_SUCC s bp = GET s (bp + WSIZE)"

definition SET_PRED :: "heap \<Rightarrow> addr \<Rightarrow> addr \<Rightarrow> error + heap" where
  "SET_PRED s bp v = PUT s bp v"

definition SET_SUCC :: "heap \<Rightarrow> addr \<Rightarrow> addr \<Rightarrow> error + heap" where
  "SET_SUCC s bp v = PUT s (bp + WSIZE) v"

text \<open>\<open>GET_ROOT(index)\<close> of the segregated files: the word at \<open>heap_listp + index * WSIZE\<close>.
  The index is a C \<open>int\<close> and may be \<open>-1\<close>.\<close>

definition ROOT_ADDR :: "heap \<Rightarrow> int \<Rightarrow> addr" where
  "ROOT_ADDR s index = listp s + word_of_int (index * 4)"

definition GET_ROOT :: "heap \<Rightarrow> int \<Rightarrow> error + addr" where
  "GET_ROOT s index = GET s (ROOT_ADDR s index)"

definition SET_ROOT :: "heap \<Rightarrow> int \<Rightarrow> addr \<Rightarrow> error + heap" where
  "SET_ROOT s index v = PUT s (ROOT_ADDR s index) v"

section \<open>Free lists\<close>

datatype variant = Explicit | SegFit | Buddy

text \<open>\<open>get_class\<close> of mm-segregated-fit.c.  The array \<open>class_sizes\<close> is filled as the loop
  goes, so the loop carries the entry written last.\<close>

function get_class_loop :: "nat \<Rightarrow> word32 \<Rightarrow> word32 \<Rightarrow> int" where
  "get_class_loop i prev_size sz =
     (if int i < SEGREGATED_LIST_SIZE
      then (let class_size = push_bit 1 prev_size
            in if sz \<le> class_size then int i else get_class_loop (i + 1) class_size sz)
      else SEGREGATED_LIST_SIZE - 1)"
  by pat_completeness auto
termination
  by (relation "measure (\<lambda>(i, p, sz). 20 - i)") auto

declare get_class_loop.simps [simp del]

definition get_class_fit :: "word32 \<Rightarrow> int" where
  "get_class_fit sz = (if sz < 16 then - 1 else get_class_loop 1 16 sz)"

text \<open>\<open>get_class\<close> of mm-segregated-buddy.c.\<close>

function get_class_buddy_loop :: "word32 \<Rightarrow> int \<Rightarrow> word32 \<Rightarrow> int" where
  "get_class_buddy_loop next_power_of_2 cls sz =
     (if next_power_of_2 < sz \<and> cls + 1 < SEGREGATED_LIST_SIZE
      then get_class_buddy_loop (push_bit 1 next_power_of_2) (cls + 1) sz
      else cls)"
  by pat_completeness auto
termination
  by (relation "measure (\<lambda>(p, cls, sz). nat (20 - cls))") auto

declare get_class_buddy_loop.simps [simp del]

definition get_class_buddy :: "word32 \<Rightarrow> int" where
  "get_class_buddy sz = get_class_buddy_loop 1 0 sz"

text \<open>The two statements that end \<open>remove_free_block\<close> in all three files.\<close>

definition unlink_block :: "heap \<Rightarrow> addr \<Rightarrow> error + heap" where
  "unlink_block s bp =
     bindE (GET_PRED s bp) (\<lambda>pred. bindE (GET_SUCC s bp) (\<lambda>succ.
     bindE (SET_SUCC s pred succ) (\<lambda>s.
     bindE (GET_SUCC s bp) (\<lambda>succ.
     if succ \<noteq> NULL
     then bindE (GET_PRED s bp) (\<lambda>pred. SET_PRED s succ pred)
     else Inr s))))"

definition remove_free_block_explicit :: "heap \<Rightarrow> addr \<Rightarrow> error + heap" where
  "remove_free_block_explicit s bp =
     (if bp = listp s
      then bindE (GET_SUCC s bp) (\<lambda>succ. Inr (s\<lparr>listp := succ\<rparr>))
      else unlink_block s bp)"

definition add_free_block_explicit :: "heap \<Rightarrow> addr \<Rightarrow> error + heap" where
  "add_free_block_explicit s bp =
     bindE (SET_PRED s bp NULL) (\<lambda>s.
     bindE (SET_SUCC s bp (listp s)) (\<lambda>s.
     bindE (if listp s \<noteq> NULL then SET_PRED s (listp s) bp else Inr s) (\<lambda>s.
     Inr (s\<lparr>listp := bp\<rparr>))))"

text \<open>The segregated files differ from each other in \<open>get_class\<close> only.\<close>

definition remove_free_block_seg :: "(word32 \<Rightarrow> int) \<Rightarrow> heap \<Rightarrow> addr \<Rightarrow> error + heap" where
  "remove_free_block_seg get_class s bp =
     bindE (GET_SIZE s (HDRP bp)) (\<lambda>sz.
     let cls = get_class sz in
     bindE (GET_ROOT s cls) (\<lambda>root.
     if bp = root
     then bindE (GET_ROOT s cls) (\<lambda>root. bindE (GET_SUCC s root) (\<lambda>succ. SET_ROOT s cls succ))
     else unlink_block s bp))"

definition add_free_block_seg :: "(word32 \<Rightarrow> int) \<Rightarrow> heap \<Rightarrow> addr \<Rightarrow> error + heap" where
  "add_free_block_seg get_class s bp =
     bindE (GET_SIZE s (HDRP bp)) (\<lambda>sz.
     let cls = get_class sz in
     bindE (GET_ROOT s cls) (\<lambda>root.
     bindE (SET_SUCC s bp root) (\<lambda>s.
     bindE (GET_ROOT s cls) (\<lambda>root.
     bindE (if root \<noteq> NULL then SET_PRED s root bp else Inr s) (\<lambda>s.
     SET_ROOT s cls bp)))))"

definition remove_free_block :: "variant \<Rightarrow> heap \<Rightarrow> addr \<Rightarrow> error + heap" where
  "remove_free_block v s bp =
     (case v of Explicit \<Rightarrow> remove_free_block_explicit s bp
      | SegFit \<Rightarrow> remove_free_block_seg get_class_fit s bp
      | Buddy \<Rightarrow> remove_free_block_seg get_class_buddy s bp)"

definition add_free_block :: "variant \<Rightarrow> heap \<Rightarrow> addr \<Rightarrow> error + heap" where
  "add_free_block v s bp =
     (case v of Explicit \<Rightarrow> add_free_block_explicit s bp
      | SegFit \<Rightarrow> add_free_block_seg get_class_fit s bp
      | Buddy \<Rightarrow> add_free_block_seg get_class_buddy s bp)"

section \<open>The boundary-tag allocators: mm-explicit.c and mm-segregated-fit.c\<close>

text \<open>\<open>coalesce\<close>, \<open>place\<close>, \<open>extend_heap\<close>, \<open>mm_malloc\<close> and \<open>mm_free\<close> read the same in both
  files; the variant selects the free-list operations they call.  The bodies of the three
  merging branches of \<open>coalesce\<close> are named, each returning the new \<open>bp\<close>.\<close>

definition coalesce_case2 :: "variant \<Rightarrow> heap \<Rightarrow> addr \<Rightarrow> word32 \<Rightarrow> error + (addr \<times> heap)" where
  "coalesce_case2 v s bp sz =
     bindE (NEXT_BLKP s bp) (\<lambda>nb. bindE (remove_free_block v s nb) (\<lambda>s.
     bindE (NEXT_BLKP s bp) (\<lambda>nb. bindE (GET_SIZE s (HDRP nb)) (\<lambda>nsz.
     let sz = sz + nsz in
     bindE (PUT s (HDRP bp) (PACK sz 0)) (\<lambda>s.
     bindE (FTRP s bp) (\<lambda>ft. bindE (PUT s ft (PACK sz 0)) (\<lambda>s.
     Inr (bp, s))))))))"

definition coalesce_case3 :: "variant \<Rightarrow> heap \<Rightarrow> addr \<Rightarrow> word32 \<Rightarrow> error + (addr \<times> heap)" where
  "coalesce_case3 v s bp sz =
     bindE (PREV_BLKP s bp) (\<lambda>pb. bindE (remove_free_block v s pb) (\<lambda>s.
     bindE (PREV_BLKP s bp) (\<lambda>pb. bindE (GET_SIZE s (HDRP pb)) (\<lambda>psz.
     let sz = sz + psz in
     bindE (FTRP s bp) (\<lambda>ft. bindE (PUT s ft (PACK sz 0)) (\<lambda>s.
     bindE (PREV_BLKP s bp) (\<lambda>pb. bindE (PUT s (HDRP pb) (PACK sz 0)) (\<lambda>s.
     bindE (PREV_BLKP s bp) (\<lambda>pb.
     Inr (pb, s))))))))))"

definition coalesce_case4 :: "variant \<Rightarrow> heap \<Rightarrow> addr \<Rightarrow> word32 \<Rightarrow> error + (addr \<times> heap)" where
  "coalesce_case4 v s bp sz =
     bindE (PREV_BLKP s bp) (\<lambda>pb. bindE (remove_free_block v s pb) (\<lambda>s.
     bindE (NEXT_BLKP s bp) (\<lambda>nb. bindE (remove_free_block v s nb) (\<lambda>s.
     bindE (PREV_BLKP s bp) (\<lambda>pb. bindE (GET_SIZE s (HDRP pb)) (\<lambda>psz.
     bindE (NEXT_BLKP s bp) (\<lambda>nb. bindE (FTRP s nb) (\<lambda>nft. bindE (GET_SIZE s nft) (\<lambda>nsz.
     let sz = sz + (psz + nsz) in
     bindE (PREV_BLKP s bp) (\<lambda>pb. bindE (PUT s (HDRP pb) (PACK sz 0)) (\<lambda>s.
     bindE (NEXT_BLKP s bp) (\<lambda>nb. bindE (FTRP s nb) (\<lambda>nft. bindE (PUT s nft (PACK sz 0)) (\<lambda>s.
     bindE (PREV_BLKP s bp) (\<lambda>pb.
     Inr (pb, s))))))))))))))))"

definition coalesce_bt :: "variant \<Rightarrow> heap \<Rightarrow> addr \<Rightarrow> error + (addr \<times> heap)" where
  "coalesce_bt v s bp =
     bindE (PREV_BLKP s bp) (\<lambda>pb. bindE (FTRP s pb) (\<lambda>pft. bindE (GET_ALLOC s pft) (\<lambda>prev_alloc.
     bindE (NEXT_BLKP s bp) (\<lambda>nb. bindE (GET_ALLOC s (HDRP nb)) (\<lambda>next_alloc.
     bindE (GET_SIZE s (HDRP bp)) (\<lambda>sz.
     if prev_alloc \<noteq> 0 \<and> next_alloc \<noteq> 0
     then bindE (add_free_block v s bp) (\<lambda>s. Inr (bp, s))
     else bindE (if prev_alloc \<noteq> 0 \<and> next_alloc = 0 then coalesce_case2 v s bp sz
                 else if prev_alloc = 0 \<and> next_alloc \<noteq> 0 then coalesce_case3 v s bp sz
                 else coalesce_case4 v s bp sz)
            (\<lambda>(bp, s). bindE (add_free_block v s bp) (\<lambda>s. Inr (bp, s)))))))))"

definition place_bt :: "variant \<Rightarrow> heap \<Rightarrow> addr \<Rightarrow> word32 \<Rightarrow> error + heap" where
  "place_bt v s bp allocate_size =
     bindE (remove_free_block v s bp) (\<lambda>s.
     bindE (GET_SIZE s (HDRP bp)) (\<lambda>chunk_size.
     if chunk_size - allocate_size \<ge> 2 * DSIZE
     then bindE (PUT s (HDRP bp) (PACK allocate_size 1)) (\<lambda>s.
          bindE (FTRP s bp) (\<lambda>ft. bindE (PUT s ft (PACK allocate_size 1)) (\<lambda>s.
          bindE (NEXT_BLKP s bp) (\<lambda>bp.
          bindE (PUT s (HDRP bp) (PACK (chunk_size - allocate_size) 0)) (\<lambda>s.
          bindE (FTRP s bp) (\<lambda>ft. bindE (PUT s ft (PACK (chunk_size - allocate_size) 0)) (\<lambda>s.
          add_free_block v s bp)))))))
     else bindE (PUT s (HDRP bp) (PACK chunk_size 1)) (\<lambda>s.
          bindE (FTRP s bp) (\<lambda>ft. PUT s ft (PACK chunk_size 1)))))"

text \<open>\<open>find_fit\<close> as both files are built: \<open>BEST_FIT\<close> is the policy that is defined.  The walk
  along a free list is the one loop of these two files with no bound of its own; it takes
  its steps from \<open>fuel\<close>, one for each test of \<open>bp != NULL\<close>.  It carries \<open>best_bp\<close> and
  \<open>min_size\<close>.\<close>

fun best_fit_list :: "nat \<Rightarrow> heap \<Rightarrow> word32 \<Rightarrow> addr \<Rightarrow> addr \<times> word32 \<Rightarrow> error + (addr \<times> word32)" where
  "best_fit_list 0 s asize bp best = Inl OutOfFuel"
| "best_fit_list (Suc fuel) s asize bp best =
     (if bp \<noteq> NULL
      then bindE (GET_SIZE s (HDRP bp)) (\<lambda>sz.
           bindE (GET_SUCC s bp) (\<lambda>succ.
           best_fit_list fuel s asize succ
             (if asize \<le> sz \<and> (snd best = 0 \<or> sz < snd best) then (bp, sz) else best)))
      else Inr best)"

definition find_fit_explicit :: "nat \<Rightarrow> heap \<Rightarrow> word32 \<Rightarrow> error + addr" where
  "find_fit_explicit fuel s asize =
     bindE (best_fit_list fuel s asize (listp s) (NULL, 0)) (\<lambda>(best_bp, min_size). Inr best_bp)"

function best_fit_classes :: "nat \<Rightarrow> heap \<Rightarrow> word32 \<Rightarrow> int \<Rightarrow> addr \<times> word32 \<Rightarrow> error + (addr \<times> word32)" where
  "best_fit_classes fuel s asize cls best =
     (if cls < SEGREGATED_LIST_SIZE
      then bindE (GET_ROOT s cls) (\<lambda>root.
           bindE (best_fit_list fuel s asize root best) (\<lambda>best.
           best_fit_classes fuel s asize (cls + 1) best))
      else Inr best)"
  by pat_completeness auto
termination
  by (relation "measure (\<lambda>(fuel, s, asize, cls, best). nat (20 - cls))") auto

declare best_fit_classes.simps [simp del]

definition find_fit_segfit :: "nat \<Rightarrow> heap \<Rightarrow> word32 \<Rightarrow> error + addr" where
  "find_fit_segfit fuel s asize =
     bindE (best_fit_classes fuel s asize (get_class_fit asize) (NULL, 0))
       (\<lambda>(best_bp, min_size). Inr best_bp)"

definition find_fit_bt :: "nat \<Rightarrow> variant \<Rightarrow> heap \<Rightarrow> word32 \<Rightarrow> error + addr" where
  "find_fit_bt fuel v s asize =
     (case v of Explicit \<Rightarrow> find_fit_explicit fuel s asize | _ \<Rightarrow> find_fit_segfit fuel s asize)"

definition extend_heap_bt :: "variant \<Rightarrow> heap \<Rightarrow> word32 \<Rightarrow> error + (addr \<times> heap)" where
  "extend_heap_bt v s words =
     (let sz = (if words mod 2 = 1 then (words + 1) * WSIZE else words * WSIZE);
          (bp, s) = mem_sbrk s sz
      in if bp = - 1 then Inr (NULL, s)
         else bindE (PUT s (HDRP bp) (PACK sz 0)) (\<lambda>s.
              bindE (FTRP s bp) (\<lambda>ft. bindE (PUT s ft (PACK sz 0)) (\<lambda>s.
              bindE (NEXT_BLKP s bp) (\<lambda>nb. bindE (PUT s (HDRP nb) (PACK 0 1)) (\<lambda>s.
              coalesce_bt v s bp))))))"

definition mm_malloc_bt :: "nat \<Rightarrow> variant \<Rightarrow> heap \<Rightarrow> word32 \<Rightarrow> error + (addr \<times> heap)" where
  "mm_malloc_bt fuel v s sz =
     (if sz = 0 then Inr (NULL, s)
      else let asize = (if sz \<le> DSIZE then 2 * DSIZE else ALIGN (sz + DSIZE)) in
        bindE (find_fit_bt fuel v s asize) (\<lambda>bp.
        if bp \<noteq> NULL
        then bindE (place_bt v s bp asize) (\<lambda>s. Inr (bp, s))
        else let extendsize = MAX_w asize CHUNKSIZE in
          bindE (extend_heap_bt v s (extendsize div WSIZE)) (\<lambda>(bp, s).
          if bp = NULL then Inr (NULL, s)
          else bindE (place_bt v s bp asize) (\<lambda>s. Inr (bp, s)))))"

definition mm_free_bt :: "variant \<Rightarrow> heap \<Rightarrow> addr \<Rightarrow> error + heap" where
  "mm_free_bt v s bp =
     bindE (GET_SIZE s (HDRP bp)) (\<lambda>sz.
     bindE (PUT s (HDRP bp) (PACK sz 0)) (\<lambda>s.
     bindE (FTRP s bp) (\<lambda>ft. bindE (PUT s ft (PACK sz 0)) (\<lambda>s.
     bindE (coalesce_bt v s bp) (\<lambda>(bp, s). Inr s)))))"

text \<open>The tail of \<open>mm_realloc\<close> that both boundary-tag files share, entered when
  \<open>newsize > originsize\<close>.\<close>

definition realloc_grow :: "nat \<Rightarrow> variant \<Rightarrow> heap \<Rightarrow> addr \<Rightarrow> word32 \<Rightarrow> word32 \<Rightarrow> error + (addr \<times> heap)" where
  "realloc_grow fuel v s oldptr originsize newsize =
     bindE (NEXT_BLKP s oldptr) (\<lambda>nb. bindE (GET_SIZE s (HDRP nb)) (\<lambda>nsz.
     let addSize = originsize + nsz in
     bindE (NEXT_BLKP s oldptr) (\<lambda>nb. bindE (GET_ALLOC s (HDRP nb)) (\<lambda>next_alloc.
     if next_alloc = 0 \<and> newsize \<le> addSize
     then bindE (NEXT_BLKP s oldptr) (\<lambda>nb. bindE (remove_free_block v s nb) (\<lambda>s.
          bindE (PUT s (HDRP oldptr) (PACK addSize 1)) (\<lambda>s.
          bindE (FTRP s oldptr) (\<lambda>ft. bindE (PUT s ft (PACK addSize 1)) (\<lambda>s.
          Inr (oldptr, s))))))
     else bindE (mm_malloc_bt fuel v s newsize) (\<lambda>(newptr, s).
          if newptr = NULL then Inr (NULL, s)
          else bindE (memcpy s newptr oldptr newsize) (\<lambda>s.
               bindE (mm_free_bt v s oldptr) (\<lambda>s.
               Inr (newptr, s))))))))"

definition mm_realloc_explicit :: "nat \<Rightarrow> heap \<Rightarrow> addr \<Rightarrow> word32 \<Rightarrow> error + (addr \<times> heap)" where
  "mm_realloc_explicit fuel s ptr sz =
     (let oldptr = ptr in
      bindE (GET_SIZE s (HDRP oldptr)) (\<lambda>originsize.
      let newsize = sz + DSIZE in
      if newsize \<le> originsize then Inr (oldptr, s)
      else realloc_grow fuel Explicit s oldptr originsize newsize))"

definition mm_realloc_segfit :: "nat \<Rightarrow> heap \<Rightarrow> addr \<Rightarrow> word32 \<Rightarrow> error + (addr \<times> heap)" where
  "mm_realloc_segfit fuel s ptr sz =
     (let oldptr = ptr in
      bindE (GET_SIZE s (HDRP oldptr)) (\<lambda>originsize.
      let newsize = sz + DSIZE in
      if sz = 0 then Inr (NULL, s)
      else if newsize \<le> originsize then Inr (oldptr, s)
      else realloc_grow fuel SegFit s oldptr originsize newsize))"

text \<open>\<open>mm_init\<close> of mm-explicit.c.  The result is the C \<open>int\<close>: 0, or \<open>-1\<close> on failure.\<close>

definition mm_init_explicit :: "heap \<Rightarrow> error + (int \<times> heap)" where
  "mm_init_explicit s =
     (let (p, s) = mem_sbrk s (8 * WSIZE); s = s\<lparr>listp := p\<rparr>
      in if p = - 1 then Inr (- 1, s)
         else bindE (PUT s (listp s) 0) (\<lambda>s.
              bindE (PUT s (listp s + 1 * WSIZE) (PACK DSIZE 1)) (\<lambda>s.
              bindE (PUT s (listp s + 2 * WSIZE) (PACK DSIZE 1)) (\<lambda>s.
              bindE (PUT s (listp s + 3 * WSIZE) (PACK (4 * WSIZE) 0)) (\<lambda>s.
              bindE (PUT s (listp s + 4 * WSIZE) NULL) (\<lambda>s.
              bindE (PUT s (listp s + 5 * WSIZE) NULL) (\<lambda>s.
              bindE (PUT s (listp s + 6 * WSIZE) (PACK (4 * WSIZE) 0)) (\<lambda>s.
              bindE (PUT s (listp s + 7 * WSIZE) (PACK 0 1)) (\<lambda>s.
              let s = s\<lparr>listp := listp s + 4 * WSIZE\<rparr> in
              bindE (extend_heap_bt Explicit s (CHUNKSIZE div WSIZE)) (\<lambda>(bp, s).
              if bp = NULL then Inr (- 1, s) else Inr (0, s)))))))))))"

text \<open>The prologue of the segregated files: a header, the twenty roots, a footer.\<close>

function init_roots :: "int \<Rightarrow> heap \<Rightarrow> error + heap" where
  "init_roots i s =
     (if i < SEGREGATED_LIST_SIZE
      then bindE (PUT s (listp s + word_of_int (2 + i) * WSIZE) NULL) (\<lambda>s. init_roots (i + 1) s)
      else Inr s)"
  by pat_completeness auto
termination
  by (relation "measure (\<lambda>(i, s). nat (20 - i))") auto

declare init_roots.simps [simp del]

definition init_prologue :: "heap \<Rightarrow> error + heap" where
  "init_prologue s =
     bindE (PUT s (listp s) 0) (\<lambda>s.
     bindE (PUT s (listp s + 1 * WSIZE) (PACK (word_of_int (SEGREGATED_LIST_SIZE + 2) * WSIZE) 1)) (\<lambda>s.
     bindE (init_roots 0 s) (\<lambda>s.
     bindE (PUT s (listp s + word_of_int (SEGREGATED_LIST_SIZE + 2) * WSIZE)
                  (PACK (word_of_int (SEGREGATED_LIST_SIZE + 2) * WSIZE) 1)) (\<lambda>s.
     bindE (PUT s (listp s + word_of_int (SEGREGATED_LIST_SIZE + 3) * WSIZE) (PACK 0 1)) (\<lambda>s.
     Inr (s\<lparr>listp := listp s + 2 * WSIZE\<rparr>))))))"

definition mm_init_segfit :: "heap \<Rightarrow> error + (int \<times> heap)" where
  "mm_init_segfit s =
     (let (p, s) = mem_sbrk s (word_of_int (SEGREGATED_LIST_SIZE + 4) * WSIZE); s = s\<lparr>listp := p\<rparr>
      in if p = - 1 then Inr (- 1, s)
         else bindE (init_prologue s) (\<lambda>s.
              bindE (extend_heap_bt SegFit s ((CHUNKSIZE + 2 * DSIZE) div WSIZE)) (\<lambda>(bp, s).
              if bp = NULL then Inr (- 1, s) else Inr (0, s))))"

section \<open>The buddy allocator: mm-segregated-buddy.c\<close>

text \<open>Blocks have a header and no footer.  Each of the loops below takes one unit of
  \<open>fuel\<close> for every test of its condition.  The condition of the loop in \<open>coalesce\<close> is a
  chain of \<open>&&\<close>: a read is made only if the tests before it passed.\<close>

fun coalesce_buddy_loop :: "nat \<Rightarrow> heap \<Rightarrow> addr \<Rightarrow> word32 \<Rightarrow> addr \<Rightarrow> error + (addr \<times> heap)" where
  "coalesce_buddy_loop 0 s bp csize root = Inl OutOfFuel"
| "coalesce_buddy_loop (Suc fuel) s bp csize root =
     (let (left_buddyp, right_buddyp) =
            (if (bp - root) AND csize \<noteq> 0 then (bp - csize, bp) else (bp, bp + csize))
      in bindE (GET_ALLOC s (HDRP left_buddyp)) (\<lambda>left_alloc.
         if left_alloc \<noteq> 0 then Inr (bp, s)
         else bindE (GET_ALLOC s (HDRP right_buddyp)) (\<lambda>right_alloc.
         if right_alloc \<noteq> 0 then Inr (bp, s)
         else bindE (GET_SIZE s (HDRP left_buddyp)) (\<lambda>left_size.
              bindE (GET_SIZE s (HDRP right_buddyp)) (\<lambda>right_size.
         if left_size \<noteq> right_size then Inr (bp, s)
         else bindE (remove_free_block Buddy s left_buddyp) (\<lambda>s.
              bindE (remove_free_block Buddy s right_buddyp) (\<lambda>s.
              let csize = push_bit 1 csize in
              bindE (PUT s (HDRP left_buddyp) (PACK csize 0)) (\<lambda>s.
              bindE (add_free_block Buddy s left_buddyp) (\<lambda>s.
              coalesce_buddy_loop fuel s left_buddyp csize root)))))))))"

definition coalesce_buddy :: "nat \<Rightarrow> heap \<Rightarrow> addr \<Rightarrow> error + (addr \<times> heap)" where
  "coalesce_buddy fuel s bp =
     bindE (add_free_block Buddy s bp) (\<lambda>s.
     bindE (GET_SIZE s (HDRP bp)) (\<lambda>csize.
     let root = listp s + word_of_int (SEGREGATED_LIST_SIZE + 1) * WSIZE in
     coalesce_buddy_loop fuel s bp csize root))"

definition extend_heap_buddy :: "nat \<Rightarrow> heap \<Rightarrow> word32 \<Rightarrow> error + (addr \<times> heap)" where
  "extend_heap_buddy fuel s words =
     (let sz = (if words mod 2 = 1 then (words + 1) * WSIZE else words * WSIZE);
          (bp, s) = mem_sbrk s sz
      in if bp = - 1 then Inr (NULL, s)
         else bindE (PUT s (HDRP bp) (PACK sz 0)) (\<lambda>s.
              bindE (NEXT_BLKP s bp) (\<lambda>nb. bindE (PUT s (HDRP nb) (PACK 0 1)) (\<lambda>s.
              coalesce_buddy fuel s bp))))"

fun place_buddy_loop :: "nat \<Rightarrow> heap \<Rightarrow> addr \<Rightarrow> word32 \<Rightarrow> word32 \<Rightarrow> error + (word32 \<times> heap)" where
  "place_buddy_loop 0 s bp allocate_size chunk_size = Inl OutOfFuel"
| "place_buddy_loop (Suc fuel) s bp allocate_size chunk_size =
     (if allocate_size \<noteq> chunk_size
      then let chunk_size = drop_bit 1 chunk_size in
           bindE (PUT s (HDRP (bp + chunk_size)) (PACK chunk_size 0)) (\<lambda>s.
           bindE (add_free_block Buddy s (bp + chunk_size)) (\<lambda>s.
           place_buddy_loop fuel s bp allocate_size chunk_size))
      else Inr (chunk_size, s))"

definition place_buddy :: "nat \<Rightarrow> heap \<Rightarrow> addr \<Rightarrow> word32 \<Rightarrow> error + heap" where
  "place_buddy fuel s bp allocate_size =
     bindE (remove_free_block Buddy s bp) (\<lambda>s.
     bindE (GET_SIZE s (HDRP bp)) (\<lambda>chunk_size.
     bindE (place_buddy_loop fuel s bp allocate_size chunk_size) (\<lambda>(chunk_size, s).
     PUT s (HDRP bp) (PACK chunk_size 1))))"

text \<open>\<open>find_fit\<close> of the buddy file is first fit: \<open>Inr (Some bp)\<close> is the \<open>return bp\<close> inside
  the loops, \<open>Inr None\<close> the end of a list.\<close>

fun first_fit_list :: "nat \<Rightarrow> heap \<Rightarrow> word32 \<Rightarrow> addr \<Rightarrow> error + addr option" where
  "first_fit_list 0 s asize bp = Inl OutOfFuel"
| "first_fit_list (Suc fuel) s asize bp =
     (if bp \<noteq> NULL
      then bindE (GET_SIZE s (HDRP bp)) (\<lambda>sz.
           if asize \<le> sz then Inr (Some bp)
           else bindE (GET_SUCC s bp) (\<lambda>succ. first_fit_list fuel s asize succ))
      else Inr None)"

function first_fit_classes :: "nat \<Rightarrow> heap \<Rightarrow> word32 \<Rightarrow> int \<Rightarrow> error + addr" where
  "first_fit_classes fuel s asize cls =
     (if cls < SEGREGATED_LIST_SIZE
      then bindE (GET_ROOT s cls) (\<lambda>root.
           bindE (first_fit_list fuel s asize root) (\<lambda>found.
           case found of Some bp \<Rightarrow> Inr bp
           | None \<Rightarrow> first_fit_classes fuel s asize (cls + 1)))
      else Inr NULL)"
  by pat_completeness auto
termination
  by (relation "measure (\<lambda>(fuel, s, asize, cls). nat (20 - cls))") auto

declare first_fit_classes.simps [simp del]

definition find_fit_buddy :: "nat \<Rightarrow> heap \<Rightarrow> word32 \<Rightarrow> error + addr" where
  "find_fit_buddy fuel s asize = first_fit_classes fuel s asize (get_class_buddy asize)"

fun asize_loop :: "nat \<Rightarrow> word32 \<Rightarrow> word32 \<Rightarrow> error + word32" where
  "asize_loop 0 asize sz = Inl OutOfFuel"
| "asize_loop (Suc fuel) asize sz =
     (if asize < sz + DSIZE then asize_loop fuel (push_bit 1 asize) sz else Inr asize)"

definition mm_malloc_buddy :: "nat \<Rightarrow> heap \<Rightarrow> word32 \<Rightarrow> error + (addr \<times> heap)" where
  "mm_malloc_buddy fuel s sz =
     (if sz = 0 then Inr (NULL, s)
      else bindE (asize_loop fuel 16 sz) (\<lambda>asize.
        bindE (find_fit_buddy fuel s asize) (\<lambda>bp.
        if bp \<noteq> NULL
        then bindE (place_buddy fuel s bp asize) (\<lambda>s. Inr (bp, s))
        else let extendsize = MAX_w asize CHUNKSIZE in
          bindE (extend_heap_buddy fuel s (extendsize div WSIZE)) (\<lambda>(bp, s).
          if bp = NULL then Inr (NULL, s)
          else bindE (place_buddy fuel s bp asize) (\<lambda>s. Inr (bp, s))))))"

definition mm_free_buddy :: "nat \<Rightarrow> heap \<Rightarrow> addr \<Rightarrow> error + heap" where
  "mm_free_buddy fuel s bp =
     bindE (GET_SIZE s (HDRP bp)) (\<lambda>sz.
     bindE (PUT s (HDRP bp) (PACK sz 0)) (\<lambda>s.
     bindE (coalesce_buddy fuel s bp) (\<lambda>(bp, s). Inr s)))"

definition mm_realloc_buddy :: "nat \<Rightarrow> heap \<Rightarrow> addr \<Rightarrow> word32 \<Rightarrow> error + (addr \<times> heap)" where
  "mm_realloc_buddy fuel s ptr sz =
     (if ptr = NULL then mm_malloc_buddy fuel s sz
      else if sz = 0 then bindE (mm_free_buddy fuel s ptr) (\<lambda>s. Inr (NULL, s))
      else bindE (mm_malloc_buddy fuel s sz) (\<lambda>(newptr, s).
           if newptr = NULL then Inr (NULL, s)
           else bindE (GET_SIZE s (HDRP ptr)) (\<lambda>have.
                let copySize = have - DSIZE;
                    copySize = (if sz < copySize then sz else copySize)
                in bindE (memcpy s newptr ptr copySize) (\<lambda>s.
                   bindE (mm_free_buddy fuel s ptr) (\<lambda>s.
                   Inr (newptr, s))))))"

definition mm_init_buddy :: "nat \<Rightarrow> heap \<Rightarrow> error + (int \<times> heap)" where
  "mm_init_buddy fuel s =
     (let (p, s) = mem_sbrk s (word_of_int (SEGREGATED_LIST_SIZE + 4) * WSIZE); s = s\<lparr>listp := p\<rparr>
      in if p = - 1 then Inr (- 1, s)
         else bindE (init_prologue s) (\<lambda>s.
              bindE (extend_heap_buddy fuel s (CHUNKSIZE div WSIZE)) (\<lambda>(bp, s).
              if bp = NULL then Inr (- 1, s) else Inr (0, s))))"

section \<open>The public operations, by variant\<close>

definition mm_init :: "nat \<Rightarrow> variant \<Rightarrow> heap \<Rightarrow> error + (int \<times> heap)" where
  "mm_init fuel v s =
     (case v of Explicit \<Rightarrow> mm_init_explicit s | SegFit \<Rightarrow> mm_init_segfit s
      | Buddy \<Rightarrow> mm_init_buddy fuel s)"

definition mm_malloc :: "nat \<Rightarrow> variant \<Rightarrow> heap \<Rightarrow> word32 \<Rightarrow> error + (addr \<times> heap)" where
  "mm_malloc fuel v s sz =
     (case v of Buddy \<Rightarrow> mm_malloc_buddy fuel s sz | _ \<Rightarrow> mm_malloc_bt fuel v s sz)"

definition mm_free :: "nat \<Rightarrow> variant \<Rightarrow> heap \<Rightarrow> addr \<Rightarrow> error + heap" where
  "mm_free fuel v s bp =
     (case v of Buddy \<Rightarrow> mm_free_buddy fuel s bp | _ \<Rightarrow> mm_free_bt v s bp)"

definition mm_realloc :: "nat \<Rightarrow> variant \<Rightarrow> heap \<Rightarrow> addr \<Rightarrow> word32 \<Rightarrow> error + (addr \<times> heap)" where
  "mm_realloc fuel v s ptr sz =
     (case v of Explicit \<Rightarrow> mm_realloc_explicit fuel s ptr sz
      | SegFit \<Rightarrow> mm_realloc_segfit fuel s ptr sz
      | Buddy \<Rightarrow> mm_realloc_buddy fuel s ptr sz)"

section \<open>Predicates on heaps\<close>

text \<open>The four bytes from \<open>p\<close> on and the four bytes from \<open>q\<close> on have no byte in common.\<close>

definition apart :: "addr \<Rightarrow> addr \<Rightarrow> bool" where
  "apart p q = (4 \<le> q - p \<and> 4 \<le> p - q)"

text \<open>The heap \<open>s'\<close> has the bounds of \<open>s\<close> and the same words at the addresses \<open>ps\<close>.\<close>

definition keeps :: "heap \<Rightarrow> heap \<Rightarrow> addr list \<Rightarrow> bool" where
  "keeps s s' ps =
     (mem_heap s' = mem_heap s \<and> mem_brk s' = mem_brk s
      \<and> list_all (\<lambda>p. load32 (mem s') p = load32 (mem s) p) ps)"

text \<open>The header of \<open>bp\<close> and the footer that this header leads to both hold \<open>PACK(sz, 0)\<close>.\<close>

definition merged :: "heap \<Rightarrow> addr \<Rightarrow> word32 \<Rightarrow> bool" where
  "merged s bp sz =
     (GET s (HDRP bp) = Inr (PACK sz 0) \<and> bindE (FTRP s bp) (GET s) = Inr (PACK sz 0))"

text \<open>The heap after \<open>PUT(p, w); PUT(q, w)\<close>, both addresses in the heap.\<close>

definition tagged :: "heap \<Rightarrow> addr \<Rightarrow> addr \<Rightarrow> word32 \<Rightarrow> heap" where
  "tagged s p q w = s\<lparr>mem := store32 (store32 (mem s) p w) q w\<rparr>"

section \<open>Concrete heaps\<close>

text \<open>The memory library right after its own start: twenty megabytes at address
  \<open>0x10000\<close>, none of them handed out yet, every byte 0.\<close>

definition fresh :: heap where
  "fresh = \<lparr>mem = (\<lambda>_. 0), mem_heap = 0x10000, mem_brk = 0x10000,
            mem_max_addr = 0x1410000, listp = 0\<rparr>"

text \<open>The heap and the value an operation leaves; a failed operation leaves \<open>fresh\<close> and
  \<open>NULL\<close>, which no run below meets.\<close>

definition heap_of :: "error + ('a \<times> heap) \<Rightarrow> heap" where
  "heap_of r = (case r of Inr (x, s) \<Rightarrow> s | Inl e \<Rightarrow> fresh)"

definition ptr_of :: "error + (addr \<times> heap) \<Rightarrow> addr" where
  "ptr_of r = (case r of Inr (x, s) \<Rightarrow> x | Inl e \<Rightarrow> NULL)"

definition freed :: "error + heap \<Rightarrow> heap" where
  "freed r = (case r of Inr s \<Rightarrow> s | Inl e \<Rightarrow> fresh)"

text \<open>mm-explicit.c: \<open>mm_init(); p = mm_malloc(1);\<close>\<close>

definition explicit_init :: heap where
  "explicit_init = heap_of (mm_init 2 Explicit fresh)"

definition explicit_one :: "error + (addr \<times> heap)" where
  "explicit_one = mm_malloc 2 Explicit explicit_init 1"

text \<open>mm-explicit.c: \<open>mm_init(); p = mm_malloc(1);\<close> as one run, with the block pointer
  it returns and the heap it leaves.\<close>

definition explicit_first :: "error + (addr \<times> heap)" where
  "explicit_first = bindE (mm_init 2 Explicit fresh) (\<lambda>(r, s). mm_malloc 2 Explicit s 1)"

definition first_bp :: addr where
  "first_bp = ptr_of explicit_first"

definition first_heap :: heap where
  "first_heap = heap_of explicit_first"

text \<open>mm-explicit.c: \<open>mm_init(); p = mm_malloc(SIZE_MAX); q = mm_malloc(4096); mm_free(p);\<close>\<close>

definition explicit_huge :: "error + (addr \<times> addr \<times> heap)" where
  "explicit_huge =
     bindE (mm_init 2 Explicit fresh) (\<lambda>(r, s).
     bindE (mm_malloc 2 Explicit s 0xFFFFFFFF) (\<lambda>(p, s).
     bindE (mm_malloc 2 Explicit s 4096) (\<lambda>(q, s).
     bindE (mm_free 2 Explicit s p) (\<lambda>s. Inr (p, q, s)))))"

definition huge_p :: addr where
  "huge_p = (case explicit_huge of Inr (p, q, s) \<Rightarrow> p | Inl e \<Rightarrow> NULL)"

definition huge_q :: addr where
  "huge_q = (case explicit_huge of Inr (p, q, s) \<Rightarrow> q | Inl e \<Rightarrow> NULL)"

definition huge_heap :: heap where
  "huge_heap = (case explicit_huge of Inr (p, q, s) \<Rightarrow> s | Inl e \<Rightarrow> fresh)"

text \<open>mm-explicit.c: \<open>mm_init(); p = mm_malloc(1); q = mm_malloc(1); r = mm_realloc(p, 16);\<close>
  with the heap before and the heap after the last call.\<close>

definition explicit_move :: "error + (addr \<times> heap \<times> addr \<times> heap)" where
  "explicit_move =
     bindE (mm_init 2 Explicit fresh) (\<lambda>(r, s).
     bindE (mm_malloc 2 Explicit s 1) (\<lambda>(p, s).
     bindE (mm_malloc 2 Explicit s 1) (\<lambda>(q, s).
     bindE (mm_realloc 2 Explicit s p 16) (\<lambda>(r, s'). Inr (p, s, r, s')))))"

definition move_old :: addr where
  "move_old = (case explicit_move of Inr (p, s, r, s') \<Rightarrow> p | Inl e \<Rightarrow> NULL)"

definition move_before :: heap where
  "move_before = (case explicit_move of Inr (p, s, r, s') \<Rightarrow> s | Inl e \<Rightarrow> fresh)"

definition move_new :: addr where
  "move_new = (case explicit_move of Inr (p, s, r, s') \<Rightarrow> r | Inl e \<Rightarrow> NULL)"

definition move_after :: heap where
  "move_after = (case explicit_move of Inr (p, s, r, s') \<Rightarrow> s' | Inl e \<Rightarrow> fresh)"

text \<open>mm-segregated-fit.c: \<open>mm_init(); a = mm_malloc(8);\<close>\<close>

definition segfit_one :: "error + (addr \<times> heap)" where
  "segfit_one = bindE (mm_init 2 SegFit fresh) (\<lambda>(r, s). mm_malloc 2 SegFit s 8)"

definition seg_bp :: addr where
  "seg_bp = ptr_of segfit_one"

definition seg_heap :: heap where
  "seg_heap = heap_of segfit_one"

text \<open>mm-segregated-buddy.c: \<open>mm_init(); p = mm_malloc(2000); r = mm_realloc(p, 1000);\<close> with
  the heap before and the heap after the last call.\<close>

definition buddy_move :: "error + (addr \<times> heap \<times> addr \<times> heap)" where
  "buddy_move =
     bindE (mm_init 9 Buddy fresh) (\<lambda>(r, s).
     bindE (mm_malloc 9 Buddy s 2000) (\<lambda>(p, s).
     bindE (mm_realloc 9 Buddy s p 1000) (\<lambda>(r, s'). Inr (p, s, r, s'))))"

definition buddy_old :: addr where
  "buddy_old = (case buddy_move of Inr (p, s, r, s') \<Rightarrow> p | Inl e \<Rightarrow> NULL)"

definition buddy_before :: heap where
  "buddy_before = (case buddy_move of Inr (p, s, r, s') \<Rightarrow> s | Inl e \<Rightarrow> fresh)"

definition buddy_new :: addr where
  "buddy_new = (case buddy_move of Inr (p, s, r, s') \<Rightarrow> r | Inl e \<Rightarrow> NULL)"

definition buddy_after :: heap where
  "buddy_after = (case buddy_move of Inr (p, s, r, s') \<Rightarrow> s' | Inl e \<Rightarrow> fresh)"

text \<open>The memory library handing out memory that was used before: every byte \<open>0xAA\<close>.
  mm-segregated-fit.c: \<open>mm_init();\<close> on it.\<close>

definition stale :: heap where
  "stale = \<lparr>mem = (\<lambda>_. 0xAA), mem_heap = 0x10000, mem_brk = 0x10000,
            mem_max_addr = 0x1410000, listp = 0\<rparr>"

definition stale_heap :: heap where
  "stale_heap = heap_of (mm_init 2 SegFit stale)"

text \<open>mm-explicit.c:
  \<open>mm_init(); a = mm_malloc(8); b = mm_malloc(8); mm_free(a); x = mm_malloc(8);\<close>\<close>

definition explicit_unlinked :: "error + (addr \<times> heap)" where
  "explicit_unlinked =
     bindE (mm_init 3 Explicit fresh) (\<lambda>(r, s).
     bindE (mm_malloc 3 Explicit s 8) (\<lambda>(a, s).
     bindE (mm_malloc 3 Explicit s 8) (\<lambda>(b, s).
     bindE (mm_free 3 Explicit s a) (\<lambda>s.
     bindE (mm_malloc 3 Explicit s 8) (\<lambda>(x, s). Inr (a, s))))))"

definition unlinked_a :: addr where
  "unlinked_a = ptr_of explicit_unlinked"

definition unlinked_heap :: heap where
  "unlinked_heap = heap_of explicit_unlinked"


text \<open>\<open>mm_free\<close> of the boundary-tag files up to its call of \<open>coalesce\<close>: header and footer of
  the block are marked free.\<close>

definition mark_free :: "heap \<Rightarrow> addr \<Rightarrow> error + (addr \<times> heap)" where
  "mark_free s bp =
     bindE (GET_SIZE s (HDRP bp)) (\<lambda>sz.
     bindE (PUT s (HDRP bp) (PACK sz 0)) (\<lambda>s.
     bindE (FTRP s bp) (\<lambda>ft. bindE (PUT s ft (PACK sz 0)) (\<lambda>s.
     Inr (bp, s)))))"

text \<open>mm-explicit.c, four heaps at the entry of \<open>coalesce(bp)\<close>, one for each case.
  Both neighbours allocated: \<open>mm_init(); a = mm_malloc(8); b = mm_malloc(8); mm_free(a)\<close>.\<close>

definition both_allocated :: "error + (addr \<times> heap)" where
  "both_allocated =
     bindE (mm_init 3 Explicit fresh) (\<lambda>(r, s).
     bindE (mm_malloc 3 Explicit s 8) (\<lambda>(a, s).
     bindE (mm_malloc 3 Explicit s 8) (\<lambda>(b, s).
     mark_free s a)))"

text \<open>Next block free: \<open>mm_init(); a = mm_malloc(8); mm_free(a)\<close>.\<close>

definition next_free :: "error + (addr \<times> heap)" where
  "next_free =
     bindE (mm_init 3 Explicit fresh) (\<lambda>(r, s).
     bindE (mm_malloc 3 Explicit s 8) (\<lambda>(a, s).
     mark_free s a))"

text \<open>Previous block free:
  \<open>mm_init(); a = mm_malloc(8); b = mm_malloc(8); c = mm_malloc(8); mm_free(a); mm_free(b)\<close>.\<close>

definition prev_free :: "error + (addr \<times> heap)" where
  "prev_free =
     bindE (mm_init 3 Explicit fresh) (\<lambda>(r, s).
     bindE (mm_malloc 3 Explicit s 8) (\<lambda>(a, s).
     bindE (mm_malloc 3 Explicit s 8) (\<lambda>(b, s).
     bindE (mm_malloc 3 Explicit s 8) (\<lambda>(c, s).
     bindE (mm_free 3 Explicit s a) (\<lambda>s.
     mark_free s b)))))"

text \<open>Both neighbours free: \<open>mm_init(); a = mm_malloc(8); b = mm_malloc(8); mm_free(a); mm_free(b)\<close>.\<close>

definition both_free :: "error + (addr \<times> heap)" where
  "both_free =
     bindE (mm_init 3 Explicit fresh) (\<lambda>(r, s).
     bindE (mm_malloc 3 Explicit s 8) (\<lambda>(a, s).
     bindE (mm_malloc 3 Explicit s 8) (\<lambda>(b, s).
     bindE (mm_free 3 Explicit s a) (\<lambda>s.
     mark_free s b))))"

section \<open>Reading and writing memory\<close>

lemma bytes_join:
  "(ucast (ucast (v::word32) :: byte) :: word32)
   OR push_bit 8 (ucast (ucast (drop_bit 8 v) :: byte))
   OR push_bit 16 (ucast (ucast (drop_bit 16 v) :: byte))
   OR push_bit 24 (ucast (ucast (drop_bit 24 v) :: byte)) = v"
proof (rule bit_word_eqI)
  fix n assume n: "n < LENGTH(32)"
  have "n < 8 \<or> (8 \<le> n \<and> n < 16) \<or> (16 \<le> n \<and> n < 24) \<or> (24 \<le> n \<and> n < 32)"
    using n by auto
  then show "bit ((ucast (ucast (v::word32) :: byte) :: word32)
       OR push_bit 8 (ucast (ucast (drop_bit 8 v) :: byte))
       OR push_bit 16 (ucast (ucast (drop_bit 16 v) :: byte))
       OR push_bit 24 (ucast (ucast (drop_bit 24 v) :: byte))) n = bit v n"
    by (auto simp add: bit_simps)
qed

lemma load32_store32_same: "load32 (store32 m p v) p = v"
  by (simp add: load32_def store32_def bytes_join)

lemma word_off_neq:
  "4 \<le> q - p \<Longrightarrow> 4 \<le> p - q \<Longrightarrow> i < 4 \<Longrightarrow> j < 4 \<Longrightarrow> (q::addr) + i \<noteq> p + j"
  by unat_arith

lemma store32_other:
  "4 \<le> q - p \<Longrightarrow> 4 \<le> p - q \<Longrightarrow> i < 4 \<Longrightarrow> store32 m p v (q + i) = m (q + i)"
  using word_off_neq[where p=p and q=q and i=i and j=0]
    word_off_neq[where p=p and q=q and i=i and j=1]
    word_off_neq[where p=p and q=q and i=i and j=2]
    word_off_neq[where p=p and q=q and i=i and j=3]
  by (simp add: store32_def)

lemma load32_store32_disj:
  "4 \<le> q - p \<Longrightarrow> 4 \<le> p - q \<Longrightarrow> load32 (store32 m p v) q = load32 m q"
  using store32_other[where p=p and q=q and i=0 and m=m and v=v]
    store32_other[where p=p and q=q and i=1 and m=m and v=v]
    store32_other[where p=p and q=q and i=2 and m=m and v=v]
    store32_other[where p=p and q=q and i=3 and m=m and v=v]
  by (simp add: load32_def)

lemma load32_zero: "load32 (\<lambda>_. 0) p = 0"
  by (simp add: load32_def)

lemma load32_stale: "load32 (\<lambda>_. 0xAA) p = 0xAAAAAAAA"
  by (simp add: load32_def)

text \<open>The facts that run the macros on a concrete heap.\<close>

lemmas macro_defs =
  GET_def PUT_def in_heap_def mem_sbrk_def GET_SIZE_def GET_ALLOC_def HDRP_def FTRP_def
  NEXT_BLKP_def PREV_BLKP_def GET_PRED_def GET_SUCC_def SET_PRED_def SET_SUCC_def
  ROOT_ADDR_def GET_ROOT_def SET_ROOT_def PACK_def ALIGN_def MAX_w_def

lemmas run_defs = fresh_def stale_def heap_of_def ptr_of_def freed_def

text \<open>Numerals that left the range of a word come back into it.\<close>

lemma word32_of_nat_mod: "(word_of_nat (m mod 4294967296) :: word32) = word_of_nat m"
  by (simp add: word_of_nat_eq_iff take_bit_eq_mod)

lemma word32_of_int_mod: "(word_of_int (k mod 4294967296) :: word32) = word_of_int k"
  by (simp add: word_of_int_eq_iff take_bit_eq_mod)

lemma word32_numeral_reduce:
  "4294967296 \<le> (numeral n :: nat) \<Longrightarrow>
   (numeral n :: word32) = word_of_nat (numeral n mod 4294967296)"
  by (metis word32_of_nat_mod of_nat_numeral)

lemma word32_neg_numeral_reduce:
  "(- numeral n :: word32) = word_of_int (- numeral n mod 4294967296)"
  by (metis word32_of_int_mod of_int_numeral of_int_minus)

lemmas num_simps = word32_numeral_reduce word32_neg_numeral_reduce

text \<open>A word read from memory after \<open>memcpy\<close>: inside the copy and outside it.\<close>

lemma off_add:
  assumes "unat d + 4 \<le> 4294967296" and "(i::word32) < 4"
  shows "unat (d + i) = unat d + unat i"
proof -
  have "unat i < 4" using assms(2) by (simp add: word_less_nat_alt)
  then have "unat d + unat i < 2 ^ LENGTH(32)" using assms(1) by simp
  then show ?thesis by (simp only: unat_add_lem)
qed

lemma copy_bytes_inside:
  assumes "unat (q - dst) + 4 \<le> unat n"
  shows "load32 (copy_bytes m dst src n) q = load32 m (src + (q - dst))"
proof -
  have n: "unat n < 4294967296" using unsigned_less [of n, where ?'a = nat] by simp
  have b: "(q + i) - dst < n" if "i < 4" for i
  proof -
    have "unat i < 4" using that by (simp add: word_less_nat_alt)
    moreover have "unat ((q - dst) + i) = unat (q - dst) + unat i"
      using off_add [of "q - dst" i] that assms n by simp
    ultimately have "(q - dst) + i < n" using assms by (simp add: word_less_nat_alt)
    then show ?thesis by (simp add: algebra_simps)
  qed
  have c: "copy_bytes m dst src n (q + i) = m (src + (q - dst) + i)" if "i < 4" for i
    using b [OF that] by (simp add: copy_bytes_def algebra_simps)
  from c [of 0] c [of 1] c [of 2] c [of 3] show ?thesis
    by (simp add: load32_def)
qed

lemma copy_bytes_outside:
  assumes "unat n \<le> unat (q - dst)" and "unat (q - dst) + 4 \<le> 4294967296"
  shows "load32 (copy_bytes m dst src n) q = load32 m q"
proof -
  have b: "\<not> (q + i) - dst < n" if "i < 4" for i
  proof -
    have "unat ((q - dst) + i) = unat (q - dst) + unat i"
      using off_add [of "q - dst" i] that assms by simp
    then have "\<not> (q - dst) + i < n" using assms by (simp add: word_less_nat_alt)
    then show ?thesis by (simp add: algebra_simps)
  qed
  have c: "copy_bytes m dst src n (q + i) = m (q + i)" if "i < 4" for i
    using b [OF that] by (simp add: copy_bytes_def)
  from c [of 0] c [of 1] c [of 2] c [of 3] show ?thesis
    by (simp add: load32_def)
qed

text \<open>Running the operations on a concrete heap: a continuation is looked into only once
  its argument is known, and a loop takes its fuel from a numeral.\<close>

lemma bindE_weak_cong: "m = m' \<Longrightarrow> bindE m f = bindE m' f"
  by simp

lemmas best_fit_list_num =
  best_fit_list.simps(2) [of "pred_numeral k" for k, folded numeral_eq_Suc]

lemmas mem_simps =
  load32_store32_same load32_store32_disj load32_zero load32_stale
  copy_bytes_inside copy_bytes_outside
  num_simps

lemmas explicit_defs =
  mm_init_def mm_init_explicit_def mm_malloc_def mm_malloc_bt_def mm_free_def mm_free_bt_def
  mm_realloc_def mm_realloc_explicit_def realloc_grow_def extend_heap_bt_def coalesce_bt_def
  coalesce_case2_def coalesce_case3_def coalesce_case4_def place_bt_def
  find_fit_bt_def find_fit_explicit_def best_fit_list_num
  remove_free_block_def remove_free_block_explicit_def unlink_block_def
  add_free_block_def add_free_block_explicit_def memcpy_def

lemmas first_fit_list_num =
  first_fit_list.simps(2) [of "pred_numeral k" for k, folded numeral_eq_Suc]

lemmas place_buddy_loop_num =
  place_buddy_loop.simps(2) [of "pred_numeral k" for k, folded numeral_eq_Suc]

lemmas coalesce_buddy_loop_num =
  coalesce_buddy_loop.simps(2) [of "pred_numeral k" for k, folded numeral_eq_Suc]

lemmas asize_loop_num =
  asize_loop.simps(2) [of "pred_numeral k" for k, folded numeral_eq_Suc]

lemmas segfit_defs =
  mm_init_def mm_init_segfit_def init_prologue_def init_roots.simps
  mm_malloc_def mm_malloc_bt_def mm_free_def mm_free_bt_def
  mm_realloc_def mm_realloc_segfit_def realloc_grow_def extend_heap_bt_def coalesce_bt_def
  coalesce_case2_def coalesce_case3_def coalesce_case4_def place_bt_def
  find_fit_bt_def find_fit_segfit_def best_fit_classes.simps best_fit_list_num
  get_class_fit_def get_class_loop.simps
  remove_free_block_def remove_free_block_seg_def unlink_block_def
  add_free_block_def add_free_block_seg_def memcpy_def

lemmas buddy_defs =
  mm_init_def mm_init_buddy_def init_prologue_def init_roots.simps
  mm_malloc_def mm_malloc_buddy_def mm_free_def mm_free_buddy_def
  mm_realloc_def mm_realloc_buddy_def extend_heap_buddy_def coalesce_buddy_def
  coalesce_buddy_loop_num place_buddy_def place_buddy_loop_num asize_loop_num
  find_fit_buddy_def first_fit_classes.simps first_fit_list_num
  get_class_buddy_def get_class_buddy_loop.simps
  remove_free_block_def remove_free_block_seg_def unlink_block_def
  add_free_block_def add_free_block_seg_def memcpy_def

text \<open>Reading and writing on any heap.\<close>

lemma apart_sym: "apart p q = apart q p"
  by (auto simp add: apart_def)

lemma load32_store32_apart: "apart p q \<Longrightarrow> load32 (store32 m p v) q = load32 m q"
  by (simp add: apart_def load32_store32_disj)

lemma load32_store32_apart': "apart q p \<Longrightarrow> load32 (store32 m p v) q = load32 m q"
  by (simp add: apart_def load32_store32_disj)

lemma apart_next: "apart p (p + 4)"
  by (simp add: apart_def)

lemma apart_next': "apart (p + 4) p"
  by (simp add: apart_def)

lemma in_heap_plus4:
  assumes "in_heap s bp 8"
  shows "in_heap s bp 4 \<and> in_heap s (bp + 4) 4"
proof -
  have b: "unat (mem_brk s) < 4294967296"
    using unsigned_less [of "mem_brk s", where ?'a = nat] by simp
  have "unat bp + unat (4 :: word32) < 2 ^ LENGTH(32)" using assms b by (simp add: in_heap_def)
  then have "unat (bp + 4) = unat bp + unat (4 :: word32)" by (simp only: unat_add_lem)
  then show ?thesis using assms by (simp add: in_heap_def)
qed

lemma PUT_ok: "in_heap s p 4 \<Longrightarrow> PUT s p v = Inr (s\<lparr>mem := store32 (mem s) p v\<rparr>)"
  by (simp add: PUT_def)

lemma GET_ok: "in_heap s p 4 \<Longrightarrow> GET s p = Inr (load32 (mem s) p)"
  by (simp add: GET_def)

lemma GET_Inr: "GET s p = Inr w \<Longrightarrow> in_heap s p 4 \<and> load32 (mem s) p = w"
  by (auto simp add: GET_def split: if_splits)

lemma in_heap_mem_upd [simp]: "in_heap (s\<lparr>mem := m\<rparr>) p n = in_heap s p n"
  by (simp add: in_heap_def)

lemma in_heap_listp_upd [simp]: "in_heap (s\<lparr>listp := l\<rparr>) p n = in_heap s p n"
  by (simp add: in_heap_def)

lemma ROOT_ADDR_mem_upd [simp]: "ROOT_ADDR (s\<lparr>mem := m\<rparr>) c = ROOT_ADDR s c"
  by (simp add: ROOT_ADDR_def)

text \<open>Sums of block sizes are block sizes.\<close>

lemma seven_mask: "(7 :: word32) = mask 3"
  by (simp add: mask_eq_exp_minus_1)

lemma take_bit3_and_not7: "take_bit 3 ((x :: word32) AND NOT 7) = 0"
  unfolding seven_mask by (rule bit_word_eqI) (simp add: bit_simps)

lemma and_not7_idem: "take_bit 3 (y :: word32) = 0 \<Longrightarrow> y AND NOT 7 = y"
proof (rule bit_word_eqI)
  fix n assume a: "take_bit 3 y = 0" and n: "n < LENGTH(32)"
  have "bit (take_bit 3 y) n = bit (0 :: word32) n" using a by simp
  then have "n < 3 \<longrightarrow> \<not> bit y n" by (simp add: bit_simps)
  then show "bit (y AND NOT 7) n = bit y n"
    unfolding seven_mask using n by (auto simp add: bit_simps)
qed

lemma and_not7_push: "(x :: word32) AND NOT 7 = push_bit 3 (drop_bit 3 x)"
  unfolding seven_mask by (rule bit_word_eqI) (auto simp add: bit_simps)

lemma push3_aligned: "push_bit 3 (w :: word32) AND NOT 7 = push_bit 3 w"
  by (rule and_not7_idem) (rule bit_word_eqI, simp add: bit_simps)

lemma sum_aligned:
  "(((a :: word32) AND NOT 7) + (b AND NOT 7)) AND NOT 7 = (a AND NOT 7) + (b AND NOT 7)"
proof -
  have "(a AND NOT 7) + (b AND NOT 7) = push_bit 3 (drop_bit 3 a + drop_bit 3 b)"
    by (simp only: and_not7_push push_bit_add)
  then show ?thesis by (simp only: push3_aligned)
qed

lemma sum3_aligned:
  "(((a :: word32) AND NOT 7) + ((b AND NOT 7) + (c AND NOT 7))) AND NOT 7
   = (a AND NOT 7) + ((b AND NOT 7) + (c AND NOT 7))"
proof -
  have "(a AND NOT 7) + ((b AND NOT 7) + (c AND NOT 7))
        = push_bit 3 (drop_bit 3 a + (drop_bit 3 b + drop_bit 3 c))"
    by (simp only: and_not7_push push_bit_add)
  then show ?thesis by (simp only: push3_aligned)
qed

section \<open>The size classes of mm-segregated-fit.c\<close>

lemma get_class_loop_char:
  "1 \<le> i \<Longrightarrow> i \<le> 20 \<Longrightarrow> unat prev = 2 ^ (i + 3) \<Longrightarrow>
   (\<forall>j. 1 \<le> j \<and> j < i \<longrightarrow> 2 ^ (j + 4) < unat sz) \<Longrightarrow>
   1 \<le> get_class_loop i prev sz \<and> get_class_loop i prev sz \<le> 19
   \<and> (get_class_loop i prev sz < 19 \<longrightarrow> unat sz \<le> 2 ^ (nat (get_class_loop i prev sz) + 4))
   \<and> (\<forall>j. 1 \<le> j \<and> int j < get_class_loop i prev sz \<longrightarrow> 2 ^ (j + 4) < unat sz)"
proof (induction i prev sz rule: get_class_loop.induct)
  case (1 i prev_size sz)
  show ?case
  proof (cases "i < 20")
    case False
    then have "get_class_loop i prev_size sz = 19"
      by (simp add: get_class_loop.simps)
    with 1(2,3,5) False show ?thesis by simp
  next
    case True
    have "(2::nat) ^ (i + 4) < 2 ^ 32"
      by (rule power_strict_increasing) (use True in simp_all)
    moreover have "(2::nat) ^ (i + 3) * 2 = 2 ^ (i + 4)" by (simp add: power_add)
    ultimately have "(2::nat) ^ (i + 3) * 2 mod 4294967296 = 2 ^ (i + 4)" by simp
    then have cs: "unat (push_bit 1 prev_size) = 2 ^ (i + 4)"
      using 1(4) by (simp add: push_bit_eq_mult unat_word_ariths)
    have le: "(sz \<le> push_bit 1 prev_size) = (unat sz \<le> 2 ^ (i + 4))"
      using cs by (simp add: word_le_nat_alt)
    show ?thesis
    proof (cases "sz \<le> push_bit 1 prev_size")
      case le1: True
      then have r: "get_class_loop i prev_size sz = int i"
        using True by (subst get_class_loop.simps) (simp add: Let_def)
      have "unat sz \<le> 2 ^ (i + 4)" using le1 le by simp
      moreover have "\<forall>j. 1 \<le> j \<and> j < i \<longrightarrow> 2 ^ (j + 4) < unat sz" using 1(5) .
      ultimately show ?thesis using r 1(2) True by simp
    next
      case gt: False
      then have r: "get_class_loop i prev_size sz
                    = get_class_loop (i + 1) (push_bit 1 prev_size) sz"
        using True by (subst get_class_loop.simps) (simp add: Let_def)
      have all: "\<forall>j. 1 \<le> j \<and> j < i + 1 \<longrightarrow> 2 ^ (j + 4) < unat sz"
      proof (intro allI impI)
        fix j assume j: "1 \<le> j \<and> j < i + 1"
        show "2 ^ (j + 4) < unat sz"
        proof (cases "j = i")
          case True then show ?thesis using gt le by simp
        next
          case False then show ?thesis using j 1(5) by simp
        qed
      qed
      have i1: "int i < 20" using True by simp
      have cs': "unat (push_bit 1 prev_size) = 2 ^ (i + 1 + 3)" using cs by simp
      have "1 \<le> i + 1" "i + 1 \<le> 20" using True by simp_all
      from 1(1)[OF i1 refl gt this cs' all] r show ?thesis by simp
    qed
  qed
qed

lemma get_class_fit_char:
  assumes "16 \<le> sz"
  shows "1 \<le> get_class_fit sz \<and> get_class_fit sz \<le> 19
   \<and> (get_class_fit sz < 19 \<longrightarrow> unat sz \<le> 2 ^ (nat (get_class_fit sz) + 4))
   \<and> (\<forall>j. 1 \<le> j \<and> int j < get_class_fit sz \<longrightarrow> 2 ^ (j + 4) < unat sz)"
proof -
  have "\<not> sz < 16" using assms by (simp add: not_less)
  then have "get_class_fit sz = get_class_loop 1 16 sz" by (simp add: get_class_fit_def)
  moreover have "unat (16::word32) = 2 ^ (1 + 3)" by simp
  ultimately show ?thesis
    using get_class_loop_char[of 1 16 sz] by simp
qed

lemma get_class_fit_16: "get_class_fit 16 = 1"
  by (simp add: get_class_fit_def get_class_loop.simps)

text \<open>C2, as the claim states it, fails: \<open>get_class(16)\<close> is 1, although index 0 already
  satisfies \<open>16 \<le> 2^(0+4)\<close>; the loop of \<open>get_class\<close> starts at index 1.\<close>

theorem get_class_fit_16_not_least:
  "get_class_fit 16 \<noteq> 0 \<and> get_class_fit 16 = 1 \<and> unat (16 :: word32) \<le> 2 ^ (0 + 4)"
  by (simp add: get_class_fit_def get_class_loop.simps)

text \<open>C2, amended: for every size of at least 16, \<open>get_class\<close> of the segregated-fit file
  returns the smallest index \<open>i \<ge> 1\<close> with \<open>size \<le> 2^(i+4)\<close>, and 19 when no index below 20
  has it; index 0 is never returned.\<close>

theorem get_class_fit_least_from_1:
  "16 \<le> sz \<Longrightarrow>
     1 \<le> get_class_fit sz \<and> get_class_fit sz \<le> 19
     \<and> (get_class_fit sz < 19 \<longrightarrow> unat sz \<le> 2 ^ (nat (get_class_fit sz) + 4))
     \<and> (\<forall>j. 1 \<le> j \<and> int j < get_class_fit sz \<longrightarrow> 2 ^ (j + 4) < unat sz)"
  by (rule get_class_fit_char)

theorem get_class_fit_least_from_1_witness:
  "(16 :: word32) \<le> 100 \<and> get_class_fit 100 = 3 \<and> unat (100 :: word32) \<le> 2 ^ (3 + 4)
   \<and> 2 ^ (1 + 4) < unat (100 :: word32) \<and> 2 ^ (2 + 4) < unat (100 :: word32)"
proof -
  have h: "(16 :: word32) \<le> 100" by simp
  have v: "get_class_fit 100 = 3" by (simp add: get_class_fit_def get_class_loop.simps)
  from get_class_fit_least_from_1 [OF h] v show ?thesis by simp
qed

text \<open>In the segregated-fit file every size of at least 16 gets a class from 1 to 19, so that
  \<open>GET_ROOT(class)\<close> is one of the twenty root words \<open>heap_listp + 4 * i\<close>, \<open>i < 20\<close>;
  \<open>get_class\<close> returns \<open>-1\<close> for the sizes below 16 and for no other.\<close>

lemma get_class_fit_within_roots:
  "(16 \<le> sz \<longrightarrow>
      1 \<le> get_class_fit sz \<and> get_class_fit sz \<le> 19
      \<and> (\<exists>i<20. ROOT_ADDR s (get_class_fit sz) = listp s + 4 * word_of_nat i))
   \<and> (get_class_fit sz = - 1 \<longleftrightarrow> sz < 16)"
proof (cases "16 \<le> sz")
  case True
  from get_class_fit_char [OF True]
  have r: "1 \<le> get_class_fit sz" "get_class_fit sz \<le> 19" by simp_all
  then have "nat (get_class_fit sz) < 20" by simp
  moreover have "ROOT_ADDR s (get_class_fit sz) = listp s + 4 * word_of_nat (nat (get_class_fit sz))"
    using r by (simp add: ROOT_ADDR_def mult.commute)
  ultimately have "\<exists>i<20. ROOT_ADDR s (get_class_fit sz) = listp s + 4 * word_of_nat i"
    by blast
  moreover have "\<not> sz < 16" using True by (simp add: not_less)
  ultimately show ?thesis using r by simp
next
  case False
  then have "sz < 16" by (simp add: not_le)
  then show ?thesis using False by (simp add: get_class_fit_def)
qed

section \<open>What an insertion writes\<close>

text \<open>\<open>add_free_block\<close> of the segregated files, then of mm-explicit.c, on a block whose link
  words lie in the heap and are not overlapped by the root slot or the old head.\<close>

lemma add_free_block_seg_effects:
  assumes slots: "in_heap s bp 8"
    and hdr: "GET s (HDRP bp) = Inr hdr"
    and cls: "cls = get_class (hdr AND NOT 7)"
    and root: "GET_ROOT s cls = Inr h"
    and ra: "apart (ROOT_ADDR s cls) bp" "apart (ROOT_ADDR s cls) (bp + 4)"
    and old: "h \<noteq> NULL \<longrightarrow> in_heap s h 4 \<and> apart h bp \<and> apart h (bp + 4) \<and> apart h (ROOT_ADDR s cls)"
  shows "\<exists>s'. add_free_block_seg get_class s bp = Inr s'
          \<and> listp s' = listp s
          \<and> GET_ROOT s' cls = Inr bp
          \<and> GET_SUCC s' bp = Inr h
          \<and> (h \<noteq> NULL \<longrightarrow> GET_PRED s' h = Inr bp)
          \<and> GET_PRED s' bp = GET_PRED s bp"
proof -
  from in_heap_plus4 [OF slots] have a: "in_heap s bp 4" and b: "in_heap s (bp + 4) 4" by simp_all
  from GET_Inr [OF root [unfolded GET_ROOT_def]]
  have r: "in_heap s (ROOT_ADDR s cls) 4" and rv: "load32 (mem s) (ROOT_ADDR s cls) = h" by simp_all
  note defs = add_free_block_seg_def SET_PRED_def SET_SUCC_def SET_ROOT_def GET_ROOT_def
      GET_PRED_def GET_SUCC_def GET_SIZE_def PUT_ok GET_ok
  note mems = load32_store32_same load32_store32_apart load32_store32_apart' apart_next apart_next'
  show ?thesis
  proof (cases "h = NULL")
    case True
    then show ?thesis using a b r rv hdr cls ra
      by (simp add: defs mems Let_def)
  next
    case False
    with old have h: "in_heap s h 4" "apart h bp" "apart h (bp + 4)" "apart h (ROOT_ADDR s cls)"
      by simp_all
    then show ?thesis using a b r rv hdr cls ra False
      by (simp add: defs mems Let_def)
  qed
qed


lemma add_free_block_explicit_effects:
  assumes "in_heap s bp 8"
    and "listp s \<noteq> NULL \<longrightarrow> in_heap s (listp s) 4 \<and> apart (listp s) bp \<and> apart (listp s) (bp + 4)"
  shows "\<exists>s'. add_free_block_explicit s bp = Inr s'
          \<and> listp s' = bp
          \<and> GET_PRED s' bp = Inr NULL
          \<and> GET_SUCC s' bp = Inr (listp s)
          \<and> (listp s \<noteq> NULL \<longrightarrow> GET_PRED s' (listp s) = Inr bp)"
proof -
  from in_heap_plus4 [OF assms(1)] have a: "in_heap s bp 4" and b: "in_heap s (bp + 4) 4" by simp_all
  note defs = add_free_block_explicit_def SET_PRED_def SET_SUCC_def
          GET_PRED_def GET_SUCC_def PUT_ok GET_ok
  note mems = load32_store32_same load32_store32_apart apart_next'
  show ?thesis
  proof (cases "listp s = NULL")
    case True
    then show ?thesis using a b by (simp add: defs mems)
  next
    case False
    with assms(2) have h: "in_heap s (listp s) 4" "apart (listp s) bp" "apart (listp s) (bp + 4)"
      by simp_all
    then show ?thesis using a b False by (simp add: defs mems)
  qed
qed

section \<open>\<open>mm_realloc\<close> before it allocates\<close>

lemma GET_null_header: "GET s (HDRP NULL) = Inl SegFault"
proof -
  have "unat (mem_brk s) < 2 ^ 32"
    using unsigned_less [of "mem_brk s", where ?'a = nat] by simp
  then show ?thesis by (simp add: GET_def HDRP_def in_heap_def)
qed

text \<open>C4 fails in two of the three files: \<open>mm_realloc\<close> of mm-explicit.c and of
  mm-segregated-fit.c starts with \<open>GET_SIZE(HDRP(oldptr))\<close>, which for \<open>NULL\<close> is a read of
  the word at address \<open>-4\<close>, outside any heap, and never reaches \<open>mm_malloc\<close>.  Only the
  buddy file tests \<open>ptr == NULL\<close> first and behaves as \<open>mm_malloc\<close>, which on the heap
  that \<open>mm_init\<close> leaves returns a block for the same request.\<close>

theorem realloc_null_reads_header:
  "mm_realloc fuel Explicit s NULL n = Inl SegFault
   \<and> mm_realloc fuel SegFit s NULL n = Inl SegFault
   \<and> mm_realloc fuel Buddy s NULL n = mm_malloc fuel Buddy s n
   \<and> ptr_of (mm_malloc 2 Explicit explicit_init 1) = 0x10010"
  by (simp add: mm_realloc_def mm_realloc_explicit_def mm_realloc_segfit_def
      mm_realloc_buddy_def GET_SIZE_def GET_null_header)
     (simp add: explicit_init_def run_defs explicit_defs macro_defs mem_simps
        cong: bindE_weak_cong)

text \<open>C9: \<open>mm_realloc(bp, 0)\<close> on a block whose header holds a size of at least 16 changes
  nothing, so the block stays allocated: mm-explicit.c returns \<open>bp\<close>, since the new size 8
  is at most the size of the block; mm-segregated-fit.c returns \<open>NULL\<close>.\<close>

theorem realloc_zero_keeps_block:
  assumes "GET s (HDRP bp) = Inr h" and "16 \<le> h AND NOT 7"
  shows "mm_realloc fuel Explicit s bp 0 = Inr (bp, s)
         \<and> mm_realloc fuel SegFit s bp 0 = Inr (NULL, s)"
proof -
  have "8 \<le> h AND NOT 7" using assms(2) by unat_arith
  then show ?thesis using assms(1)
    by (simp add: mm_realloc_def mm_realloc_explicit_def mm_realloc_segfit_def GET_SIZE_def)
qed

lemma explicit_one_header:
  "ptr_of explicit_one = 0x10010 \<and> GET (heap_of explicit_one) (HDRP 0x10010) = Inr 17"
  by (simp add: explicit_one_def explicit_init_def run_defs explicit_defs macro_defs mem_simps
      cong: bindE_weak_cong)

theorem realloc_zero_keeps_block_witness:
  "GET (heap_of explicit_one) (HDRP 0x10010) = Inr 17 \<and> (16 :: word32) \<le> 17 AND NOT 7
   \<and> mm_realloc 2 Explicit (heap_of explicit_one) 0x10010 0 = Inr (0x10010, heap_of explicit_one)
   \<and> mm_realloc 2 SegFit (heap_of explicit_one) 0x10010 0 = Inr (NULL, heap_of explicit_one)
   \<and> GET_ALLOC (heap_of explicit_one) (HDRP 0x10010) = Inr 1"
proof -
  have h: "GET (heap_of explicit_one) (HDRP 0x10010) = Inr 17"
    using explicit_one_header by simp
  have l: "(16 :: word32) \<le> 17 AND NOT 7" by simp
  from realloc_zero_keeps_block [OF h l, of 2] h l show ?thesis
    by (simp add: GET_ALLOC_def)
qed

section \<open>Three runs of mm-explicit.c\<close>

lemma explicit_first_run:
  "(case explicit_first of Inl e \<Rightarrow> False | Inr (bp, s) \<Rightarrow>
       bp = mem_heap s + 16
     \<and> mem_heap s = 0x10000
     \<and> GET s (HDRP bp) = Inr (PACK 16 1)
     \<and> NEXT_BLKP s bp = Inr (bp + 16)
     \<and> listp s = bp + 16
     \<and> GET s (HDRP (bp + 16)) = Inr (PACK 4096 0)
     \<and> GET s (mem_heap s + 12 + 4096) = Inr 0
     \<and> GET s (mem_heap s + 12 + 4112) = Inr (PACK 0 1)
     \<and> mem_brk s = mem_heap s + 12 + 4116)"
  by (simp add: explicit_first_def run_defs explicit_defs macro_defs mem_simps
      cong: bindE_weak_cong)

text \<open>C8, as the claim states it, fails.  \<open>mm_init\<close> of mm-explicit.c lays out a first free
  block of 16 bytes before it extends the heap by \<open>CHUNKSIZE\<close>, and the two are merged to
  4112 bytes.  After \<open>mm_malloc(1)\<close> the free block that remains holds size 4096, not 4080,
  and the word 4096 bytes above the header of the first block is payload of that free
  block, not the epilogue header.\<close>

theorem first_allocation_not_4080:
  "GET first_heap (HDRP (first_bp + 16)) = Inr (PACK 4096 0)
   \<and> PACK 4096 0 \<noteq> PACK 4080 0
   \<and> GET first_heap (HDRP first_bp + 4096) = Inr 0
   \<and> PACK 0 1 \<noteq> 0"
proof (cases explicit_first)
  case (Inl e)
  from explicit_first_run show ?thesis unfolding Inl by simp
next
  case (Inr x)
  obtain bp s where x: "x = (bp, s)" by (cases x)
  from explicit_first_run show ?thesis
    unfolding first_bp_def first_heap_def ptr_of_def heap_of_def Inr x
    by (clarsimp simp add: PACK_def HDRP_def)
qed

text \<open>C8, amended: in mm-explicit.c with \<open>CHUNKSIZE = 4096\<close>, right after \<open>mm_init\<close> the call
  \<open>mm_malloc(1)\<close> returns the first block, 16 bytes above the start of the heap, whose header
  holds size 16 with flag 1; the block after it is the head of the free list and its
  header holds size 4096 with flag 0; the epilogue header \<open>PACK(0, 1)\<close> is the last word of
  the heap, 4112 bytes above the header of the first block.\<close>

theorem first_allocation_layout:
  "first_bp = mem_heap first_heap + 16
   \<and> GET first_heap (HDRP first_bp) = Inr (PACK 16 1)
   \<and> NEXT_BLKP first_heap first_bp = Inr (first_bp + 16)
   \<and> listp first_heap = first_bp + 16
   \<and> GET first_heap (HDRP (first_bp + 16)) = Inr (PACK 4096 0)
   \<and> GET first_heap (HDRP first_bp + 4112) = Inr (PACK 0 1)
   \<and> mem_brk first_heap = HDRP first_bp + 4116"
proof (cases explicit_first)
  case (Inl e)
  from explicit_first_run show ?thesis unfolding Inl by simp
next
  case (Inr x)
  obtain bp s where x: "x = (bp, s)" by (cases x)
  from explicit_first_run show ?thesis
    unfolding first_bp_def first_heap_def ptr_of_def heap_of_def Inr x
    by (clarsimp simp add: HDRP_def)
qed

lemma explicit_huge_run:
  "(case explicit_huge of Inl e \<Rightarrow> False | Inr (p, q, s) \<Rightarrow>
       p = 0x10010 \<and> q = 0x10018
     \<and> GET s (HDRP p) = Inr (PACK 8 0)
     \<and> NEXT_BLKP s p = Inr q
     \<and> GET s (HDRP q) = Inr 0
     \<and> listp s = p)"
  by (simp add: explicit_huge_def run_defs explicit_defs macro_defs mem_simps
      cong: bindE_weak_cong)

text \<open>C7 fails on a request whose size wraps around.  \<open>mm_malloc(0xFFFFFFFF)\<close> computes
  \<open>asize = ALIGN(size + 8) = 8\<close> and places a block of 8 bytes, header and footer only;
  \<open>mm_malloc(4096)\<close> then takes the whole rest of the heap as the block \<open>q\<close>.  \<open>mm_free\<close> of
  the first block puts it on the free list, and \<open>add_free_block\<close> writes its two link words
  over its own footer and over the header of \<open>q\<close>.  After these four public operations the
  free block \<open>p\<close> (flag 0, head of the free list) is followed by a block whose header has
  flag 0 and is not the epilogue \<open>PACK(0, 1)\<close>.\<close>

theorem wrapped_request_breaks_no_adjacent_frees:
  "GET_ALLOC huge_heap (HDRP huge_p) = Inr 0
   \<and> listp huge_heap = huge_p
   \<and> NEXT_BLKP huge_heap huge_p = Inr huge_q
   \<and> GET_ALLOC huge_heap (HDRP huge_q) = Inr 0
   \<and> GET huge_heap (HDRP huge_q) = Inr 0
   \<and> PACK 0 1 \<noteq> 0"
proof (cases explicit_huge)
  case (Inl e)
  from explicit_huge_run show ?thesis unfolding Inl by simp
next
  case (Inr x)
  obtain p q s where x: "x = (p, q, s)" by (cases x)
  from explicit_huge_run show ?thesis
    unfolding huge_p_def huge_q_def huge_heap_def Inr x
    by (clarsimp simp add: GET_ALLOC_def PACK_def)
qed

lemma explicit_move_run:
  "(case explicit_move of Inl e \<Rightarrow> False | Inr (p, s, r, s') \<Rightarrow>
       p = 0x10010 \<and> r = 0x10030
     \<and> GET s (HDRP p) = Inr (PACK 16 1)
     \<and> GET s (p + 8) = Inr (PACK 16 1) \<and> GET s (p + 12) = Inr (PACK 16 1)
     \<and> GET s (r + 8) = Inr 0 \<and> GET s (r + 12) = Inr 0
     \<and> GET s' (HDRP r) = Inr (PACK 32 1)
     \<and> GET s' (r + 8) = Inr (PACK 16 1) \<and> GET s' (r + 12) = Inr (PACK 16 1)
     \<and> GET s' (HDRP p) = Inr (PACK 16 0))"
  by (simp add: explicit_move_def run_defs explicit_defs macro_defs mem_simps
      cong: bindE_weak_cong)

text \<open>C1 fails in mm-explicit.c (and in mm-segregated-fit.c, whose \<open>mm_realloc\<close> has the same
  tail).  The block \<open>p\<close> has size 16, so its payload is 8 bytes and the claim has
  \<open>mm_realloc(p, 16)\<close> allocate for 16 bytes and copy \<open>min(16 - 8, 16) = 8\<close> bytes.  The code
  calls \<open>mm_malloc(newsize)\<close> and \<open>memcpy(newptr, oldptr, newsize)\<close> with \<open>newsize = 16 + 8\<close>:
  the new block has size 32, not 24, and the words at offsets 8 and 12 of the new payload,
  which held 0 before, now hold what lay behind the old payload: the footer of \<open>p\<close> and the
  header of the next block.  The old block is freed.\<close>

theorem realloc_move_copies_past_payload:
  "GET move_before (HDRP move_old) = Inr (PACK 16 1)
   \<and> move_new \<noteq> move_old
   \<and> GET move_after (HDRP move_new) = Inr (PACK 32 1)
   \<and> GET move_before (move_new + 8) = Inr 0
   \<and> GET move_before (move_old + 8) = Inr (PACK 16 1)
   \<and> GET move_after (move_new + 8) = Inr (PACK 16 1)
   \<and> GET move_before (move_new + 12) = Inr 0
   \<and> GET move_before (move_old + 12) = Inr (PACK 16 1)
   \<and> GET move_after (move_new + 12) = Inr (PACK 16 1)
   \<and> GET move_after (HDRP move_old) = Inr (PACK 16 0)"
proof (cases explicit_move)
  case (Inl e)
  from explicit_move_run show ?thesis unfolding Inl by simp
next
  case (Inr x)
  obtain p s r s' where x: "x = (p, s, r, s')" by (cases x)
  from explicit_move_run show ?thesis
    unfolding move_old_def move_new_def move_before_def move_after_def Inr x
    by (clarsimp simp add: PACK_def)
qed

section \<open>\<open>mm_realloc\<close> when the block is large enough\<close>

lemma segfit_one_run:
  "(case segfit_one of Inl e \<Rightarrow> False | Inr (bp, s) \<Rightarrow>
       bp = 0x10060
     \<and> mem_heap s = 0x10000 \<and> mem_brk s = 0x11070 \<and> listp s = 0x10008
     \<and> GET s (HDRP bp) = Inr (PACK 16 1)
     \<and> GET s bp = Inr 0
     \<and> GET_ROOT s 1 = Inr NULL
     \<and> GET_ROOT s 8 = Inr (bp + 16))"
  by (simp add: segfit_one_def run_defs segfit_defs macro_defs mem_simps
      cong: bindE_weak_cong)

lemma buddy_move_run:
  "(case buddy_move of Inl e \<Rightarrow> False | Inr (p, s, r, s') \<Rightarrow>
       p = 0x10060 \<and> r = 0x10860
     \<and> GET s (HDRP p) = Inr (PACK 2048 1)
     \<and> GET s' (HDRP r) = Inr (PACK 1024 1)
     \<and> GET s' (HDRP p) = Inr (PACK 2048 0))"
  by (simp add: buddy_move_def run_defs buddy_defs macro_defs mem_simps
      cong: bindE_weak_cong)

lemma first_block_header: "GET first_heap (HDRP first_bp) = Inr 17"
proof (cases explicit_first)
  case (Inl e)
  from explicit_first_run show ?thesis unfolding Inl by simp
next
  case (Inr x)
  obtain bp s where x: "x = (bp, s)" by (cases x)
  from explicit_first_run show ?thesis
    unfolding first_bp_def first_heap_def ptr_of_def heap_of_def Inr x
    by (clarsimp simp add: PACK_def)
qed

lemma seg_block_header: "GET seg_heap (HDRP seg_bp) = Inr 17"
proof (cases segfit_one)
  case (Inl e)
  from segfit_one_run show ?thesis unfolding Inl by simp
next
  case (Inr x)
  obtain bp s where x: "x = (bp, s)" by (cases x)
  from segfit_one_run show ?thesis
    unfolding seg_bp_def seg_heap_def ptr_of_def heap_of_def Inr x
    by (clarsimp simp add: PACK_def)
qed

text \<open>C3, as the claim states it, fails in two of the three files.  In
  mm-segregated-fit.c a request of 0 bytes on the 16-byte block \<open>a\<close> has
  \<open>need = 8 \<le> have = 16\<close>, yet \<open>mm_realloc\<close> returns \<open>NULL\<close>, not the block.  In
  mm-segregated-buddy.c \<open>mm_realloc\<close> has no test of the old size at all: on the 2048-byte
  block \<open>p\<close> a request of 1000 bytes has \<open>need = 1008 \<le> have = 2048\<close>, yet the call returns
  another block and frees \<open>p\<close>, whose header goes from \<open>PACK(2048, 1)\<close> to \<open>PACK(2048, 0)\<close>.\<close>

theorem realloc_fits_yet_not_in_place:
  "GET seg_heap (HDRP seg_bp) = Inr (PACK 16 1)
   \<and> ((unat (0 :: word32) + 8 + 7) div 8) * 8 \<le> unat (PACK 16 1 AND NOT 7)
   \<and> mm_realloc 2 SegFit seg_heap seg_bp 0 = Inr (NULL, seg_heap)
   \<and> seg_bp \<noteq> NULL
   \<and> GET buddy_before (HDRP buddy_old) = Inr (PACK 2048 1)
   \<and> ((unat (1000 :: word32) + 8 + 7) div 8) * 8 \<le> unat (PACK 2048 1 AND NOT 7)
   \<and> buddy_new \<noteq> buddy_old
   \<and> GET buddy_after (HDRP buddy_old) = Inr (PACK 2048 0)
   \<and> PACK 2048 0 \<noteq> PACK 2048 1"
proof -
  have s: "GET seg_heap (HDRP seg_bp) = Inr (PACK 16 1)
     \<and> mm_realloc 2 SegFit seg_heap seg_bp 0 = Inr (NULL, seg_heap) \<and> seg_bp \<noteq> NULL"
  proof (cases segfit_one)
    case (Inl e)
    from segfit_one_run show ?thesis unfolding Inl by simp
  next
    case (Inr x)
    obtain bp s where x: "x = (bp, s)" by (cases x)
    from segfit_one_run show ?thesis
      unfolding seg_bp_def seg_heap_def ptr_of_def heap_of_def Inr x
      by (clarsimp simp add: mm_realloc_def mm_realloc_segfit_def GET_SIZE_def)
  qed
  have b: "GET buddy_before (HDRP buddy_old) = Inr (PACK 2048 1) \<and> buddy_new \<noteq> buddy_old
      \<and> GET buddy_after (HDRP buddy_old) = Inr (PACK 2048 0)"
  proof (cases buddy_move)
    case (Inl e)
    from buddy_move_run show ?thesis unfolding Inl by simp
  next
    case (Inr x)
    obtain p s r s' where x: "x = (p, s, r, s')" by (cases x)
    from buddy_move_run show ?thesis
      unfolding buddy_old_def buddy_new_def buddy_before_def buddy_after_def Inr x
      by clarsimp
  qed
  have n: "((unat (0 :: word32) + 8 + 7) div 8) * 8 \<le> unat (PACK 16 1 AND NOT 7)
     \<and> ((unat (1000 :: word32) + 8 + 7) div 8) * 8 \<le> unat (PACK 2048 1 AND NOT 7)
     \<and> PACK 2048 0 \<noteq> PACK 2048 1"
    by (simp add: PACK_def)
  from s b n show ?thesis by blast
qed

text \<open>C3, amended: in mm-explicit.c for every requested size \<open>n\<close>, and in
  mm-segregated-fit.c for every \<open>n\<close> other than 0, if the header of \<open>bp\<close> can be read and
  \<open>need = align_up(n + 8, 8)\<close> is at most the size it holds, then \<open>mm_realloc(bp, n)\<close> returns
  \<open>bp\<close> and leaves the heap as it was.  Left out are the two cases of the counterexample:
  \<open>n = 0\<close> in mm-segregated-fit.c, and mm-segregated-buddy.c.\<close>

theorem realloc_in_place_when_fits:
  assumes "v = Explicit \<or> (v = SegFit \<and> n \<noteq> 0)"
    and "GET s (HDRP bp) = Inr h"
    and "((unat n + 8 + 7) div 8) * 8 \<le> unat (h AND NOT 7)"
  shows "mm_realloc fuel v s bp n = Inr (bp, s)"
proof -
  have "unat n + 8 \<le> unat (h AND NOT 7)" using assms(3) by arith
  moreover have "unat (h AND NOT 7) < 2 ^ 32"
    using unsigned_less [of "h AND NOT 7", where ?'a = nat] by simp
  ultimately have "n + 8 \<le> h AND NOT 7" by unat_arith
  then show ?thesis using assms(1,2)
    by (auto simp add: mm_realloc_def mm_realloc_explicit_def mm_realloc_segfit_def GET_SIZE_def)
qed

theorem realloc_in_place_when_fits_witness:
  "GET first_heap (HDRP first_bp) = Inr 17
   \<and> GET seg_heap (HDRP seg_bp) = Inr 17
   \<and> ((unat (1 :: word32) + 8 + 7) div 8) * 8 \<le> unat ((17 :: word32) AND NOT 7)
   \<and> mm_realloc 2 Explicit first_heap first_bp 1 = Inr (first_bp, first_heap)
   \<and> mm_realloc 2 SegFit seg_heap seg_bp 1 = Inr (seg_bp, seg_heap)"
proof -
  have h: "GET first_heap (HDRP first_bp) = Inr 17" by (rule first_block_header)
  have g: "GET seg_heap (HDRP seg_bp) = Inr 17" by (rule seg_block_header)
  have l: "((unat (1 :: word32) + 8 + 7) div 8) * 8 \<le> unat ((17 :: word32) AND NOT 7)"
    by simp
  have one: "(1 :: word32) \<noteq> 0" by simp
  from realloc_in_place_when_fits [OF _ h l, of Explicit 2]
       realloc_in_place_when_fits [OF _ g l, of SegFit 2] h g l one
  show ?thesis by simp
qed

section \<open>Insertion into a free list\<close>

text \<open>The segregated variants never write the predecessor word of the inserted block. On memory
  that was used before, the first free block that \<open>mm_init\<close> of mm-segregated-fit.c inserts
  (the head of class 9) keeps whatever its predecessor word held.\<close>

lemma stale_heap_run:
  "GET_ROOT stale_heap 9 = Inr 0x10060 \<and> GET_PRED stale_heap 0x10060 = Inr 0xAAAAAAAA"
  by (simp add: stale_heap_def run_defs segfit_defs macro_defs mem_simps
      cong: bindE_weak_cong)

text \<open>mm-explicit.c: removing the head of the list moves \<open>free_listp\<close> to the successor and
  leaves the successor's predecessor word as it was.\<close>

lemma explicit_unlinked_run:
  "(case explicit_unlinked of Inl e \<Rightarrow> False | Inr (a, s) \<Rightarrow>
      a = 0x10010 \<and> listp s = 0x10030 \<and> GET_PRED s (listp s) = Inr a)"
  by (simp add: explicit_unlinked_def run_defs explicit_defs macro_defs mem_simps
      cong: bindE_weak_cong)

text \<open>C5, as stated, fails. In mm-segregated-fit.c after \<open>mm_init\<close> on used memory the head of
  class 9 is the block at \<open>0x10060\<close>, and its predecessor link is \<open>0xAAAAAAAA\<close>, not none:
  the insertion did not set it. In mm-explicit.c after
  \<open>mm_init(); a = mm_malloc(8); b = mm_malloc(8); mm_free(a); mm_malloc(8)\<close> the head of the free
  list is the block at \<open>0x10030\<close> and its predecessor link is still \<open>a\<close>.\<close>

theorem list_head_pred_not_none:
  "GET_ROOT stale_heap 9 = Inr 0x10060
   \<and> GET_PRED stale_heap 0x10060 = Inr 0xAAAAAAAA
   \<and> (0xAAAAAAAA :: addr) \<noteq> NULL
   \<and> listp unlinked_heap = 0x10030
   \<and> GET_PRED unlinked_heap (listp unlinked_heap) = Inr unlinked_a
   \<and> unlinked_a = 0x10010
   \<and> unlinked_a \<noteq> NULL"
proof -
  have "listp unlinked_heap = 0x10030
   \<and> GET_PRED unlinked_heap (listp unlinked_heap) = Inr unlinked_a
   \<and> unlinked_a = 0x10010
   \<and> unlinked_a \<noteq> NULL"
  proof (cases explicit_unlinked)
    case (Inl e)
    from explicit_unlinked_run show ?thesis unfolding Inl by simp
  next
    case (Inr x)
    obtain a s where x: "x = (a, s)" by (cases x)
    from explicit_unlinked_run show ?thesis
      unfolding unlinked_a_def unlinked_heap_def ptr_of_def heap_of_def Inr x
      by clarsimp
  qed
  moreover have "(0xAAAAAAAA :: addr) \<noteq> NULL" by simp
  ultimately show ?thesis using stale_heap_run by blast
qed

text \<open>C5, amended. Let the two link words of \<open>bp\<close> lie in the heap. In mm-explicit.c, when
  the old head (if there is one) does not overlap them, \<open>add_free_block\<close> is exactly the LIFO
  insertion: the list head becomes \<open>bp\<close>, the predecessor link of \<open>bp\<close> is none, its successor
  link is the old head, and the old head's predecessor link is \<open>bp\<close>. In the two segregated
  variants, with \<open>cls\<close> the class of the size in the header of \<open>bp\<close> and \<open>h\<close> the old head of that
  class (root slot and old head not overlapping the link words), the head of the class becomes
  \<open>bp\<close>, the successor link of \<open>bp\<close> is \<open>h\<close> and the predecessor link of \<open>h\<close> is \<open>bp\<close>, but the
  predecessor link of \<open>bp\<close> is left as it was.\<close>

theorem add_free_block_effects:
  assumes "in_heap s bp 8"
  shows "((listp s \<noteq> NULL \<longrightarrow>
             in_heap s (listp s) 4 \<and> apart (listp s) bp \<and> apart (listp s) (bp + 4))
          \<longrightarrow> (\<exists>s'. add_free_block Explicit s bp = Inr s'
                 \<and> listp s' = bp
                 \<and> GET_PRED s' bp = Inr NULL
                 \<and> GET_SUCC s' bp = Inr (listp s)
                 \<and> (listp s \<noteq> NULL \<longrightarrow> GET_PRED s' (listp s) = Inr bp)))
       \<and> ((v = SegFit \<and> cls = get_class_fit (hdr AND NOT 7)
             \<or> v = Buddy \<and> cls = get_class_buddy (hdr AND NOT 7))
            \<and> GET s (HDRP bp) = Inr hdr \<and> GET_ROOT s cls = Inr h
            \<and> apart (ROOT_ADDR s cls) bp \<and> apart (ROOT_ADDR s cls) (bp + 4)
            \<and> (h \<noteq> NULL \<longrightarrow>
                  in_heap s h 4 \<and> apart h bp \<and> apart h (bp + 4) \<and> apart h (ROOT_ADDR s cls))
          \<longrightarrow> (\<exists>s'. add_free_block v s bp = Inr s'
                 \<and> listp s' = listp s
                 \<and> GET_ROOT s' cls = Inr bp
                 \<and> GET_SUCC s' bp = Inr h
                 \<and> (h \<noteq> NULL \<longrightarrow> GET_PRED s' h = Inr bp)
                 \<and> GET_PRED s' bp = GET_PRED s bp))"
proof (intro conjI impI)
  assume "listp s \<noteq> NULL \<longrightarrow>
             in_heap s (listp s) 4 \<and> apart (listp s) bp \<and> apart (listp s) (bp + 4)"
  from add_free_block_explicit_effects [OF assms this]
  show "\<exists>s'. add_free_block Explicit s bp = Inr s'
                 \<and> listp s' = bp
                 \<and> GET_PRED s' bp = Inr NULL
                 \<and> GET_SUCC s' bp = Inr (listp s)
                 \<and> (listp s \<noteq> NULL \<longrightarrow> GET_PRED s' (listp s) = Inr bp)"
    by (simp add: add_free_block_def)
next
  assume a: "(v = SegFit \<and> cls = get_class_fit (hdr AND NOT 7)
             \<or> v = Buddy \<and> cls = get_class_buddy (hdr AND NOT 7))
            \<and> GET s (HDRP bp) = Inr hdr \<and> GET_ROOT s cls = Inr h
            \<and> apart (ROOT_ADDR s cls) bp \<and> apart (ROOT_ADDR s cls) (bp + 4)
            \<and> (h \<noteq> NULL \<longrightarrow>
                  in_heap s h 4 \<and> apart h bp \<and> apart h (bp + 4) \<and> apart h (ROOT_ADDR s cls))"
  then have c: "GET s (HDRP bp) = Inr hdr" "GET_ROOT s cls = Inr h"
      "apart (ROOT_ADDR s cls) bp" "apart (ROOT_ADDR s cls) (bp + 4)"
      "h \<noteq> NULL \<longrightarrow>
                  in_heap s h 4 \<and> apart h bp \<and> apart h (bp + 4) \<and> apart h (ROOT_ADDR s cls)"
    by simp_all
  from a consider "v = SegFit" "cls = get_class_fit (hdr AND NOT 7)"
    | "v = Buddy" "cls = get_class_buddy (hdr AND NOT 7)" by blast
  then show "\<exists>s'. add_free_block v s bp = Inr s'
                 \<and> listp s' = listp s
                 \<and> GET_ROOT s' cls = Inr bp
                 \<and> GET_SUCC s' bp = Inr h
                 \<and> (h \<noteq> NULL \<longrightarrow> GET_PRED s' h = Inr bp)
                 \<and> GET_PRED s' bp = GET_PRED s bp"
  proof cases
    case 1
    from add_free_block_seg_effects [where get_class = get_class_fit, OF assms c(1) 1(2) c(2-5)] 1(1)
    show ?thesis by (simp add: add_free_block_def)
  next
    case 2
    from add_free_block_seg_effects [where get_class = get_class_buddy, OF assms c(1) 2(2) c(2-5)] 2(1)
    show ?thesis by (simp add: add_free_block_def)
  qed
qed

theorem add_free_block_effects_witness:
  "in_heap first_heap first_bp 8
   \<and> listp first_heap = first_bp + 16
   \<and> in_heap first_heap (first_bp + 16) 4
   \<and> apart (first_bp + 16) first_bp \<and> apart (first_bp + 16) (first_bp + 4)
   \<and> (\<exists>s'. add_free_block Explicit first_heap first_bp = Inr s'
          \<and> listp s' = first_bp
          \<and> GET_PRED s' first_bp = Inr NULL
          \<and> GET_SUCC s' first_bp = Inr (first_bp + 16)
          \<and> GET_PRED s' (first_bp + 16) = Inr first_bp)
   \<and> in_heap seg_heap seg_bp 8
   \<and> get_class_fit (17 AND NOT 7) = 1
   \<and> GET seg_heap (HDRP seg_bp) = Inr 17
   \<and> GET_ROOT seg_heap 1 = Inr NULL
   \<and> apart (ROOT_ADDR seg_heap 1) seg_bp \<and> apart (ROOT_ADDR seg_heap 1) (seg_bp + 4)
   \<and> (\<exists>s'. add_free_block SegFit seg_heap seg_bp = Inr s'
          \<and> GET_ROOT s' 1 = Inr seg_bp
          \<and> GET_SUCC s' seg_bp = Inr NULL
          \<and> GET_PRED s' seg_bp = GET_PRED seg_heap seg_bp)"
proof -
  have e: "in_heap first_heap first_bp 8
     \<and> listp first_heap = first_bp + 16 \<and> first_bp + 16 \<noteq> NULL
     \<and> in_heap first_heap (first_bp + 16) 4
     \<and> apart (first_bp + 16) first_bp \<and> apart (first_bp + 16) (first_bp + 4)"
  proof (cases explicit_first)
    case (Inl e)
    from explicit_first_run show ?thesis unfolding Inl by simp
  next
    case (Inr x)
    obtain bp s where x: "x = (bp, s)" by (cases x)
    from explicit_first_run show ?thesis
      unfolding first_bp_def first_heap_def ptr_of_def heap_of_def Inr x
      by (clarsimp simp add: in_heap_def apart_def)
  qed
  have g: "in_heap seg_heap seg_bp 8
     \<and> GET seg_heap (HDRP seg_bp) = Inr 17
     \<and> GET_ROOT seg_heap 1 = Inr NULL
     \<and> apart (ROOT_ADDR seg_heap 1) seg_bp \<and> apart (ROOT_ADDR seg_heap 1) (seg_bp + 4)"
  proof (cases segfit_one)
    case (Inl e)
    from segfit_one_run show ?thesis unfolding Inl by simp
  next
    case (Inr x)
    obtain bp s where x: "x = (bp, s)" by (cases x)
    from segfit_one_run show ?thesis
      unfolding seg_bp_def seg_heap_def ptr_of_def heap_of_def Inr x
      by (clarsimp simp add: in_heap_def apart_def ROOT_ADDR_def PACK_def)
  qed
  have c: "get_class_fit (17 AND NOT 7) = 1"
    by (simp add: get_class_fit_def get_class_loop.simps)
  from e have e1: "in_heap first_heap first_bp 8" by simp
  from g have g1: "in_heap seg_heap seg_bp 8" by simp
  from add_free_block_effects [OF e1, of SegFit 0 0 NULL] e
  have r1: "\<exists>s'. add_free_block Explicit first_heap first_bp = Inr s'
          \<and> listp s' = first_bp
          \<and> GET_PRED s' first_bp = Inr NULL
          \<and> GET_SUCC s' first_bp = Inr (first_bp + 16)
          \<and> GET_PRED s' (first_bp + 16) = Inr first_bp"
    by simp
  from add_free_block_effects [OF g1, of SegFit 1 17 NULL] g c
  have r2: "\<exists>s'. add_free_block SegFit seg_heap seg_bp = Inr s'
          \<and> GET_ROOT s' 1 = Inr seg_bp
          \<and> GET_SUCC s' seg_bp = Inr NULL
          \<and> GET_PRED s' seg_bp = GET_PRED seg_heap seg_bp"
    by auto
  from e g c r1 r2 show ?thesis by blast
qed
section \<open>Coalescing with boundary tags\<close>

text \<open>What a removal from a free list keeps, and the branch that \<open>coalesce\<close> takes.\<close>

lemma keeps_in_heap: "keeps s s' ps \<Longrightarrow> in_heap s' p n = in_heap s p n"
  by (simp add: keeps_def in_heap_def)

lemma keeps_GET: "keeps s s' ps \<Longrightarrow> p \<in> set ps \<Longrightarrow> GET s' p = GET s p"
  by (simp add: keeps_def in_heap_def GET_def list_all_iff)

lemma keeps_listp: "keeps s (s\<lparr>listp := l\<rparr>) ps"
  by (simp add: keeps_def list_all_iff)

lemma PACK_free: "PACK t 0 = t"
  by (simp add: PACK_def)

lemma coalesce_bt_dispatch:
  assumes pf: "GET s (bp - 8) = Inr pf"
    and ph: "GET s (HDRP (bp - (pf AND NOT 7))) = Inr pf"
    and hdr: "GET s (HDRP bp) = Inr hdr"
    and nh: "GET s (HDRP (bp + (hdr AND NOT 7))) = Inr nh"
  shows "coalesce_bt v s bp =
     (if pf AND 1 \<noteq> 0 \<and> nh AND 1 \<noteq> 0
      then bindE (add_free_block v s bp) (\<lambda>s. Inr (bp, s))
      else bindE (if pf AND 1 \<noteq> 0 \<and> nh AND 1 = 0 then coalesce_case2 v s bp (hdr AND NOT 7)
                 else if pf AND 1 = 0 \<and> nh AND 1 \<noteq> 0 then coalesce_case3 v s bp (hdr AND NOT 7)
                 else coalesce_case4 v s bp (hdr AND NOT 7))
            (\<lambda>(bp, s). bindE (add_free_block v s bp) (\<lambda>s. Inr (bp, s))))"
proof -
  have a: "PREV_BLKP s bp = Inr (bp - (pf AND NOT 7))"
    using pf by (simp add: PREV_BLKP_def GET_SIZE_def)
  have b: "FTRP s (bp - (pf AND NOT 7)) = Inr (bp - 8)"
    using ph by (simp add: FTRP_def GET_SIZE_def)
  have c: "GET_ALLOC s (bp - 8) = Inr (pf AND 1)"
    using pf by (simp add: GET_ALLOC_def)
  have d: "NEXT_BLKP s bp = Inr (bp + (hdr AND NOT 7))"
    using hdr by (simp add: NEXT_BLKP_def GET_SIZE_def HDRP_def)
  have e: "GET_ALLOC s (HDRP (bp + (hdr AND NOT 7))) = Inr (nh AND 1)"
    using nh by (simp add: GET_ALLOC_def)
  have f: "GET_SIZE s (HDRP bp) = Inr (hdr AND NOT 7)"
    using hdr by (simp add: GET_SIZE_def)
  show ?thesis
    unfolding coalesce_bt_def by (simp only: a b c d e f bindE.simps)
qed

lemma coalesce_case2_merged:
  assumes hdr: "GET s (HDRP bp) = Inr hdr"
    and nh: "GET s (HDRP (bp + sz)) = Inr nh"
    and sz: "sz = hdr AND NOT 7" and nsz: "nsz = nh AND NOT 7"
    and rm: "remove_free_block v s (bp + sz) = Inr s1"
    and k: "keeps s s1 [HDRP bp, HDRP (bp + sz)]"
    and fa: "in_heap s (bp + (sz + nsz) - 8) 4"
    and ap: "apart (HDRP bp) (bp + (sz + nsz) - 8)"
  shows "coalesce_case2 v s bp sz = Inr (bp, tagged s1 (HDRP bp) (bp + (sz + nsz) - 8) (PACK (sz + nsz) 0))
       \<and> merged (tagged s1 (HDRP bp) (bp + (sz + nsz) - 8) (PACK (sz + nsz) 0)) bp (sz + nsz)"
proof -
  have al: "(sz + nsz) AND NOT 7 = sz + nsz" unfolding sz nsz by (rule sum_aligned)
  have h1: "GET s1 (HDRP bp) = Inr hdr" using keeps_GET [OF k, of "HDRP bp"] hdr by simp
  have n1: "GET s1 (HDRP (bp + sz)) = Inr nh" using keeps_GET [OF k, of "HDRP (bp + sz)"] nh by simp
  have i1: "in_heap s1 (HDRP bp) 4" using GET_Inr [OF h1] by simp
  have f1: "in_heap s1 (bp + (sz + nsz) - 8) 4" using fa keeps_in_heap [OF k] by simp
  have d: "NEXT_BLKP s bp = Inr (bp + sz)"
    using hdr sz by (simp add: NEXT_BLKP_def GET_SIZE_def HDRP_def)
  have d1: "NEXT_BLKP s1 bp = Inr (bp + sz)"
    using h1 sz by (simp add: NEXT_BLKP_def GET_SIZE_def HDRP_def)
  have g1: "GET_SIZE s1 (HDRP (bp + sz)) = Inr nsz" using n1 nsz by (simp add: GET_SIZE_def)
  define w where "w = sz + nsz"
  define fa where "fa = bp + w - 8"
  define s' where "s' = s1\<lparr>mem := store32 (mem s1) (HDRP bp) w\<rparr>"
  define s2 where "s2 = s'\<lparr>mem := store32 (mem s') fa w\<rparr>"
  have al': "w AND NOT 7 = w" using al by (simp add: w_def)
  have p1: "PUT s1 (HDRP bp) (PACK w 0) = Inr s'"
    using i1 by (simp add: PUT_ok s'_def PACK_free)
  have ft: "FTRP s' bp = Inr fa"
    using i1 al' by (simp add: FTRP_def GET_SIZE_def GET_ok s'_def load32_store32_same fa_def)
  have p2: "PUT s' fa (PACK w 0) = Inr s2"
    using f1 by (simp add: PUT_ok s2_def s'_def PACK_free fa_def w_def)
  have r: "coalesce_case2 v s bp sz = Inr (bp, s2)"
    unfolding coalesce_case2_def
    by (simp only: d rm d1 g1 bindE.simps Let_def w_def [symmetric] p1 ft p2)
  have ap': "apart (HDRP bp) fa" using ap by (simp add: fa_def w_def)
  have g2: "GET s2 (HDRP bp) = Inr w"
    using i1 ap' by (simp add: GET_ok s2_def s'_def load32_store32_same load32_store32_apart')
  have ft2: "FTRP s2 bp = Inr fa"
    using g2 al' by (simp add: FTRP_def GET_SIZE_def fa_def)
  have g3: "GET s2 fa = Inr w"
    using f1 by (simp add: GET_ok s2_def s'_def load32_store32_same fa_def w_def)
  have m: "merged s2 bp w"
    unfolding merged_def by (simp only: g2 ft2 g3 bindE.simps PACK_free)
  have "s2 = tagged s1 (HDRP bp) (bp + (sz + nsz) - 8) (PACK (sz + nsz) 0)"
    by (simp add: s2_def s'_def tagged_def fa_def w_def PACK_free)
  with r m show ?thesis unfolding w_def by simp
qed

lemma coalesce_case3_merged:
  assumes pf: "GET s (bp - 8) = Inr pf"
    and ph: "GET s (HDRP (bp - psz)) = Inr pf"
    and hdr: "GET s (HDRP bp) = Inr hdr"
    and sz: "sz = hdr AND NOT 7" and psz: "psz = pf AND NOT 7"
    and rm: "remove_free_block v s (bp - psz) = Inr s1"
    and k: "keeps s s1 [bp - 8, HDRP (bp - psz), HDRP bp]"
    and fa: "in_heap s (bp + sz - 8) 4"
    and ap: "apart (bp + sz - 8) (bp - 8)" "apart (HDRP (bp - psz)) (bp - 8)"
      "apart (HDRP (bp - psz)) (bp + sz - 8)"
  shows "coalesce_case3 v s bp sz = Inr (bp - psz, tagged s1 (bp + sz - 8) (HDRP (bp - psz)) (PACK (sz + psz) 0))
       \<and> merged (tagged s1 (bp + sz - 8) (HDRP (bp - psz)) (PACK (sz + psz) 0)) (bp - psz) (sz + psz)"
proof -
  define w where "w = sz + psz"
  define pb where "pb = bp - psz"
  define fa where "fa = bp + sz - 8"
  define s' where "s' = s1\<lparr>mem := store32 (mem s1) fa w\<rparr>"
  define s2 where "s2 = s'\<lparr>mem := store32 (mem s') (HDRP pb) w\<rparr>"
  have al: "w AND NOT 7 = w" unfolding w_def sz psz by (rule sum_aligned)
  have f1: "GET s1 (bp - 8) = Inr pf" using keeps_GET [OF k, of "bp - 8"] pf by simp
  have h1: "GET s1 (HDRP pb) = Inr pf" using keeps_GET [OF k, of "HDRP (bp - psz)"] ph
    by (simp add: pb_def)
  have b1: "GET s1 (HDRP bp) = Inr hdr" using keeps_GET [OF k, of "HDRP bp"] hdr by simp
  have i1: "in_heap s1 (HDRP pb) 4" using GET_Inr [OF h1] by simp
  have i2: "in_heap s1 (bp - 8) 4" using GET_Inr [OF f1] by simp
  have i3: "in_heap s1 fa 4" using fa keeps_in_heap [OF k] by (simp add: fa_def)
  have ap': "apart fa (bp - 8)" "apart (HDRP pb) (bp - 8)" "apart (HDRP pb) fa"
    using ap by (simp_all add: fa_def pb_def)
  have v1: "load32 (mem s1) (bp - 8) = pf" using GET_Inr [OF f1] by simp
  have d: "PREV_BLKP s bp = Inr pb"
    using pf psz by (simp add: PREV_BLKP_def GET_SIZE_def pb_def)
  have d1: "PREV_BLKP s1 bp = Inr pb"
    using f1 psz by (simp add: PREV_BLKP_def GET_SIZE_def pb_def)
  have g1: "GET_SIZE s1 (HDRP pb) = Inr psz" using h1 psz by (simp add: GET_SIZE_def)
  have ft: "FTRP s1 bp = Inr fa" using b1 sz by (simp add: FTRP_def GET_SIZE_def fa_def)
  have p1: "PUT s1 fa (PACK w 0) = Inr s'" using i3 by (simp add: PUT_ok s'_def PACK_free)
  have d2: "PREV_BLKP s' bp = Inr pb"
    using i2 v1 ap' psz
    by (simp add: PREV_BLKP_def GET_SIZE_def GET_ok s'_def load32_store32_apart pb_def)
  have p2: "PUT s' (HDRP pb) (PACK w 0) = Inr s2"
    using i1 by (simp add: PUT_ok s2_def s'_def PACK_free)
  have d3: "PREV_BLKP s2 bp = Inr pb"
    using i2 v1 ap' psz
    by (simp add: PREV_BLKP_def GET_SIZE_def GET_ok s2_def s'_def load32_store32_apart pb_def)
  have r: "coalesce_case3 v s bp sz = Inr (pb, s2)"
    unfolding coalesce_case3_def
    by (simp only: d rm [folded pb_def] d1 g1 bindE.simps Let_def w_def [symmetric] ft p1 d2 p2 d3)
  have g2: "GET s2 (HDRP pb) = Inr w"
    using i1 by (simp add: GET_ok s2_def s'_def load32_store32_same)
  have e: "pb + w - 8 = fa" by (simp add: pb_def w_def fa_def)
  have ft2: "FTRP s2 pb = Inr fa"
    using g2 al e by (simp add: FTRP_def GET_SIZE_def)
  have g3: "GET s2 fa = Inr w"
    using i3 ap' by (simp add: GET_ok s2_def s'_def load32_store32_same load32_store32_apart)
  have m: "merged s2 pb w"
    unfolding merged_def by (simp only: g2 ft2 g3 bindE.simps PACK_free)
  have "s2 = tagged s1 (bp + sz - 8) (HDRP (bp - psz)) (PACK (sz + psz) 0)"
    by (simp add: s2_def s'_def tagged_def fa_def w_def pb_def PACK_free)
  with r m show ?thesis unfolding w_def pb_def by simp
qed

lemma coalesce_case4_merged:
  assumes pf: "GET s (bp - 8) = Inr pf"
    and ph: "GET s (HDRP (bp - psz)) = Inr pf"
    and hdr: "GET s (HDRP bp) = Inr hdr"
    and nh: "GET s (HDRP (bp + sz)) = Inr nh"
    and nf: "GET s (bp + sz + nsz - 8) = Inr nh"
    and sz: "sz = hdr AND NOT 7" and psz: "psz = pf AND NOT 7" and nsz: "nsz = nh AND NOT 7"
    and rm1: "remove_free_block v s (bp - psz) = Inr s1"
    and k1: "keeps s s1 [HDRP bp]"
    and rm2: "remove_free_block v s1 (bp + sz) = Inr s2"
    and k2: "keeps s s2 [bp - 8, HDRP (bp - psz), HDRP bp, HDRP (bp + sz), bp + sz + nsz - 8]"
    and ap: "apart (HDRP (bp - psz)) (HDRP bp)" "apart (HDRP (bp - psz)) (HDRP (bp + sz))"
      "apart (HDRP (bp - psz)) (bp - 8)" "apart (HDRP (bp - psz)) (bp + sz + nsz - 8)"
      "apart (bp + sz + nsz - 8) (bp - 8)"
  shows "coalesce_case4 v s bp sz = Inr (bp - psz, tagged s2 (HDRP (bp - psz)) (bp + sz + nsz - 8) (PACK (sz + (psz + nsz)) 0))
       \<and> merged (tagged s2 (HDRP (bp - psz)) (bp + sz + nsz - 8) (PACK (sz + (psz + nsz)) 0)) (bp - psz) (sz + (psz + nsz))"
proof -
  define w where "w = sz + (psz + nsz)"
  define pb where "pb = bp - psz"
  define nb where "nb = bp + sz"
  define fa where "fa = bp + sz + nsz - 8"
  define s3 where "s3 = s2\<lparr>mem := store32 (mem s2) (HDRP pb) w\<rparr>"
  define s4 where "s4 = s3\<lparr>mem := store32 (mem s3) fa w\<rparr>"
  have al: "w AND NOT 7 = w" unfolding w_def sz psz nsz by (rule sum3_aligned)
  have b1: "GET s1 (HDRP bp) = Inr hdr" using keeps_GET [OF k1, of "HDRP bp"] hdr by simp
  have f2: "GET s2 (bp - 8) = Inr pf" using keeps_GET [OF k2, of "bp - 8"] pf by simp
  have h2: "GET s2 (HDRP pb) = Inr pf" using keeps_GET [OF k2, of "HDRP (bp - psz)"] ph
    by (simp add: pb_def)
  have b2: "GET s2 (HDRP bp) = Inr hdr" using keeps_GET [OF k2, of "HDRP bp"] hdr by simp
  have n2: "GET s2 (HDRP nb) = Inr nh" using keeps_GET [OF k2, of "HDRP (bp + sz)"] nh
    by (simp add: nb_def)
  have t2: "GET s2 fa = Inr nh" using keeps_GET [OF k2, of "bp + sz + nsz - 8"] nf
    by (simp add: fa_def)
  have i1: "in_heap s2 (HDRP pb) 4" using GET_Inr [OF h2] by simp
  have i2: "in_heap s2 (bp - 8) 4" using GET_Inr [OF f2] by simp
  have i3: "in_heap s2 fa 4" using GET_Inr [OF t2] by simp
  have i4: "in_heap s2 (HDRP bp) 4" using GET_Inr [OF b2] by simp
  have i5: "in_heap s2 (HDRP nb) 4" using GET_Inr [OF n2] by simp
  have v1: "load32 (mem s2) (bp - 8) = pf" using GET_Inr [OF f2] by simp
  have v2: "load32 (mem s2) (HDRP bp) = hdr" using GET_Inr [OF b2] by simp
  have v3: "load32 (mem s2) (HDRP nb) = nh" using GET_Inr [OF n2] by simp
  have ap': "apart (HDRP pb) (HDRP bp)" "apart (HDRP pb) (HDRP nb)"
      "apart (HDRP pb) (bp - 8)" "apart (HDRP pb) fa" "apart fa (bp - 8)"
    using ap by (simp_all add: fa_def pb_def nb_def)
  have d: "PREV_BLKP s bp = Inr pb"
    using pf psz by (simp add: PREV_BLKP_def GET_SIZE_def pb_def)
  have e1: "NEXT_BLKP s1 bp = Inr nb"
    using b1 sz by (simp add: NEXT_BLKP_def GET_SIZE_def HDRP_def nb_def)
  have d2: "PREV_BLKP s2 bp = Inr pb"
    using f2 psz by (simp add: PREV_BLKP_def GET_SIZE_def pb_def)
  have g2: "GET_SIZE s2 (HDRP pb) = Inr psz" using h2 psz by (simp add: GET_SIZE_def)
  have e2: "NEXT_BLKP s2 bp = Inr nb"
    using b2 sz by (simp add: NEXT_BLKP_def GET_SIZE_def HDRP_def nb_def)
  have ft2: "FTRP s2 nb = Inr fa"
    using n2 nsz by (simp add: FTRP_def GET_SIZE_def fa_def nb_def)
  have gs: "GET_SIZE s2 fa = Inr nsz" using t2 nsz by (simp add: GET_SIZE_def)
  have p3: "PUT s2 (HDRP pb) (PACK w 0) = Inr s3" using i1 by (simp add: PUT_ok s3_def PACK_free)
  have e3: "NEXT_BLKP s3 bp = Inr nb"
    using i4 v2 ap' sz
    by (simp add: NEXT_BLKP_def GET_SIZE_def GET_ok s3_def load32_store32_apart nb_def
        HDRP_def [symmetric])
  have ft3: "FTRP s3 nb = Inr fa"
    using i5 v3 ap' nsz
    by (simp add: FTRP_def GET_SIZE_def GET_ok s3_def load32_store32_apart fa_def nb_def)
  have p4: "PUT s3 fa (PACK w 0) = Inr s4" using i3 by (simp add: PUT_ok s4_def s3_def PACK_free)
  have d4: "PREV_BLKP s4 bp = Inr pb"
    using i2 v1 ap' psz
    by (simp add: PREV_BLKP_def GET_SIZE_def GET_ok s4_def s3_def load32_store32_apart pb_def)
  have r: "coalesce_case4 v s bp sz = Inr (pb, s4)"
    unfolding coalesce_case4_def
    by (simp only: d rm1 [folded pb_def] e1 rm2 [folded nb_def] d2 g2 e2 ft2 gs bindE.simps
        Let_def w_def [symmetric] p3 e3 ft3 p4 d4)
  have g4: "GET s4 (HDRP pb) = Inr w"
    using i1 ap' by (simp add: GET_ok s4_def s3_def load32_store32_same load32_store32_apart')
  have e: "pb + w - 8 = fa" by (simp add: pb_def w_def fa_def)
  have ft4: "FTRP s4 pb = Inr fa"
    using g4 al e by (simp add: FTRP_def GET_SIZE_def)
  have g5: "GET s4 fa = Inr w"
    using i3 by (simp add: GET_ok s4_def s3_def load32_store32_same)
  have m: "merged s4 pb w"
    unfolding merged_def by (simp only: g4 ft4 g5 bindE.simps PACK_free)
  have "s4 = tagged s2 (HDRP (bp - psz)) (bp + sz + nsz - 8) (PACK (sz + (psz + nsz)) 0)"
    by (simp add: s4_def s3_def tagged_def fa_def w_def pb_def PACK_free)
  with r m show ?thesis unfolding w_def pb_def by simp
qed

lemma GET_SUCC_listp_upd: "GET_SUCC (s\<lparr>listp := l\<rparr>) p = GET_SUCC s p"
  by (simp add: GET_SUCC_def GET_def)

lemma remove_head_explicit:
  "GET_SUCC s (listp s) = Inr q \<Longrightarrow> remove_free_block Explicit s (listp s) = Inr (s\<lparr>listp := q\<rparr>)"
  by (simp add: remove_free_block_def remove_free_block_explicit_def)

text \<open>The four heaps at the entry of \<open>coalesce\<close>.\<close>

lemma both_allocated_run:
  "(case both_allocated of Inl e \<Rightarrow> False | Inr (bp, s) \<Rightarrow>
      bp = 0x10010
    \<and> mem_heap s = 0x10000
    \<and> mem_brk s = 0x11020
    \<and> listp s = 0x10030
    \<and> GET s 0x10008 = Inr 9
    \<and> GET s 0x10004 = Inr 9
    \<and> GET s 0x1000C = Inr 16
    \<and> GET s 0x1001C = Inr 17)"
  by (simp add: both_allocated_def mark_free_def run_defs explicit_defs macro_defs mem_simps
      cong: bindE_weak_cong)

lemma next_free_run:
  "(case next_free of Inl e \<Rightarrow> False | Inr (bp, s) \<Rightarrow>
      bp = 0x10010
    \<and> mem_heap s = 0x10000
    \<and> mem_brk s = 0x11020
    \<and> listp s = 0x10020
    \<and> GET s 0x10008 = Inr 9
    \<and> GET s 0x10004 = Inr 9
    \<and> GET s 0x1000C = Inr 16
    \<and> GET s 0x1001C = Inr 4096
    \<and> GET_SUCC s 0x10020 = Inr 0)"
  by (simp add: next_free_def mark_free_def run_defs explicit_defs macro_defs mem_simps
      cong: bindE_weak_cong)

lemma prev_free_run:
  "(case prev_free of Inl e \<Rightarrow> False | Inr (bp, s) \<Rightarrow>
      bp = 0x10020
    \<and> mem_heap s = 0x10000
    \<and> mem_brk s = 0x11020
    \<and> listp s = 0x10010
    \<and> GET s 0x10018 = Inr 16
    \<and> GET s 0x1000C = Inr 16
    \<and> GET s 0x1001C = Inr 16
    \<and> GET s 0x1002C = Inr 17
    \<and> GET_SUCC s 0x10010 = Inr 0x10040)"
  by (simp add: prev_free_def mark_free_def run_defs explicit_defs macro_defs mem_simps
      cong: bindE_weak_cong)

lemma both_free_run:
  "(case both_free of Inl e \<Rightarrow> False | Inr (bp, s) \<Rightarrow>
      bp = 0x10020
    \<and> mem_heap s = 0x10000
    \<and> mem_brk s = 0x11020
    \<and> listp s = 0x10010
    \<and> GET s 0x10018 = Inr 16
    \<and> GET s 0x1000C = Inr 16
    \<and> GET s 0x1001C = Inr 16
    \<and> GET s 0x1002C = Inr 4080
    \<and> GET s 0x11018 = Inr 4080
    \<and> GET_SUCC s 0x10010 = Inr 0x10030
    \<and> GET_SUCC s 0x10030 = Inr 0)"
  by (simp add: both_free_def mark_free_def run_defs explicit_defs macro_defs mem_simps
      cong: bindE_weak_cong)

text \<open>C6. Let the footer before \<open>bp\<close> hold \<open>pf\<close>, the header of the previous block the same
  word, the header of \<open>bp\<close> hold \<open>hdr\<close> and the header of the next block \<open>nh\<close>, with \<open>psz\<close>, \<open>sz\<close>
  and \<open>nsz\<close> the three sizes. \<open>coalesce(bp)\<close> then follows the table of the two flags. Both set:
  the result is \<open>bp\<close> and the heap that inserting \<open>bp\<close> into \<open>s\<close> leaves. Only the previous flag
  set: with \<open>s1\<close> the heap that removing the next block from its list leaves, header and footer
  of \<open>bp\<close> are written with \<open>PACK(sz + nsz, 0)\<close>, and the result is \<open>bp\<close> and the heap that
  inserting \<open>bp\<close> into this heap leaves. Only the next flag set: with \<open>s1\<close> the heap that removing
  the previous block leaves, its header and the footer of \<open>bp\<close> are written with
  \<open>PACK(sz + psz, 0)\<close>, and the result is the previous block and the heap that inserting it
  leaves. Neither set: with \<open>s2\<close> the heap that removing first the previous and then the next
  block leaves, the header of the previous block and the footer of the next are written with
  \<open>PACK(sz + psz + nsz, 0)\<close>, and the result is the previous block and the heap that inserting it
  leaves. In each merging case the heap handed to the insertion holds the combined size in the
  header and the footer of the merged block. The removals are assumed to leave the boundary tags
  involved as they are, and the words written not to overlap the words read.\<close>

theorem coalesce_four_cases:
  assumes v: "v = Explicit \<or> v = SegFit"
    and pf: "GET s (bp - 8) = Inr pf"
    and ph: "GET s (HDRP (bp - psz)) = Inr pf"
    and hdr: "GET s (HDRP bp) = Inr hdr"
    and nh: "GET s (HDRP (bp + sz)) = Inr nh"
    and sz: "sz = hdr AND NOT 7" and psz: "psz = pf AND NOT 7" and nsz: "nsz = nh AND NOT 7"
  shows "(pf AND 1 \<noteq> 0 \<and> nh AND 1 \<noteq> 0 \<and> add_free_block v s bp = Inr s3
          \<longrightarrow> coalesce_bt v s bp = Inr (bp, s3))
       \<and> (pf AND 1 \<noteq> 0 \<and> nh AND 1 = 0
            \<and> remove_free_block v s (bp + sz) = Inr s1
            \<and> keeps s s1 [HDRP bp, HDRP (bp + sz)]
            \<and> in_heap s (bp + (sz + nsz) - 8) 4
            \<and> apart (HDRP bp) (bp + (sz + nsz) - 8)
            \<and> add_free_block v (tagged s1 (HDRP bp) (bp + (sz + nsz) - 8) (PACK (sz + nsz) 0)) bp = Inr s3
          \<longrightarrow> merged (tagged s1 (HDRP bp) (bp + (sz + nsz) - 8) (PACK (sz + nsz) 0)) bp (sz + nsz)
              \<and> coalesce_bt v s bp = Inr (bp, s3))
       \<and> (pf AND 1 = 0 \<and> nh AND 1 \<noteq> 0
            \<and> remove_free_block v s (bp - psz) = Inr s1
            \<and> keeps s s1 [bp - 8, HDRP (bp - psz), HDRP bp]
            \<and> in_heap s (bp + sz - 8) 4
            \<and> apart (bp + sz - 8) (bp - 8)
            \<and> apart (HDRP (bp - psz)) (bp - 8)
            \<and> apart (HDRP (bp - psz)) (bp + sz - 8)
            \<and> add_free_block v (tagged s1 (bp + sz - 8) (HDRP (bp - psz)) (PACK (sz + psz) 0)) (bp - psz) = Inr s3
          \<longrightarrow> merged (tagged s1 (bp + sz - 8) (HDRP (bp - psz)) (PACK (sz + psz) 0)) (bp - psz) (sz + psz)
              \<and> coalesce_bt v s bp = Inr (bp - psz, s3))
       \<and> (pf AND 1 = 0 \<and> nh AND 1 = 0
            \<and> GET s (bp + sz + nsz - 8) = Inr nh
            \<and> remove_free_block v s (bp - psz) = Inr s1
            \<and> keeps s s1 [HDRP bp]
            \<and> remove_free_block v s1 (bp + sz) = Inr s2
            \<and> keeps s s2 [bp - 8, HDRP (bp - psz), HDRP bp, HDRP (bp + sz), bp + sz + nsz - 8]
            \<and> apart (HDRP (bp - psz)) (HDRP bp)
            \<and> apart (HDRP (bp - psz)) (HDRP (bp + sz))
            \<and> apart (HDRP (bp - psz)) (bp - 8)
            \<and> apart (HDRP (bp - psz)) (bp + sz + nsz - 8)
            \<and> apart (bp + sz + nsz - 8) (bp - 8)
            \<and> add_free_block v (tagged s2 (HDRP (bp - psz)) (bp + sz + nsz - 8) (PACK (sz + (psz + nsz)) 0)) (bp - psz) = Inr s3
          \<longrightarrow> merged (tagged s2 (HDRP (bp - psz)) (bp + sz + nsz - 8) (PACK (sz + (psz + nsz)) 0)) (bp - psz) (sz + (psz + nsz))
              \<and> coalesce_bt v s bp = Inr (bp - psz, s3))"
proof -
  note d = coalesce_bt_dispatch [OF pf ph [unfolded psz] hdr nh [unfolded sz], folded sz]
  have c1: "coalesce_bt v s bp = Inr (bp, s3)"
    if h: "pf AND 1 \<noteq> 0 \<and> nh AND 1 \<noteq> 0 \<and> add_free_block v s bp = Inr s3"
    using h by (simp add: d)
  have c2: "merged (tagged s1 (HDRP bp) (bp + (sz + nsz) - 8) (PACK (sz + nsz) 0)) bp (sz + nsz)
              \<and> coalesce_bt v s bp = Inr (bp, s3)"
    if h: "pf AND 1 \<noteq> 0 \<and> nh AND 1 = 0
            \<and> remove_free_block v s (bp + sz) = Inr s1
            \<and> keeps s s1 [HDRP bp, HDRP (bp + sz)]
            \<and> in_heap s (bp + (sz + nsz) - 8) 4
            \<and> apart (HDRP bp) (bp + (sz + nsz) - 8)
            \<and> add_free_block v (tagged s1 (HDRP bp) (bp + (sz + nsz) - 8) (PACK (sz + nsz) 0)) bp = Inr s3"
  proof -
    from h have rm: "remove_free_block v s (bp + sz) = Inr s1"
      and k: "keeps s s1 [HDRP bp, HDRP (bp + sz)]" and i: "in_heap s (bp + (sz + nsz) - 8) 4"
      and a: "apart (HDRP bp) (bp + (sz + nsz) - 8)" by simp_all
    note m = coalesce_case2_merged [OF hdr nh sz nsz rm k i a]
    from h m show ?thesis by (simp add: d)
  qed
  have c3: "merged (tagged s1 (bp + sz - 8) (HDRP (bp - psz)) (PACK (sz + psz) 0)) (bp - psz) (sz + psz)
              \<and> coalesce_bt v s bp = Inr (bp - psz, s3)"
    if h: "pf AND 1 = 0 \<and> nh AND 1 \<noteq> 0
            \<and> remove_free_block v s (bp - psz) = Inr s1
            \<and> keeps s s1 [bp - 8, HDRP (bp - psz), HDRP bp]
            \<and> in_heap s (bp + sz - 8) 4
            \<and> apart (bp + sz - 8) (bp - 8)
            \<and> apart (HDRP (bp - psz)) (bp - 8)
            \<and> apart (HDRP (bp - psz)) (bp + sz - 8)
            \<and> add_free_block v (tagged s1 (bp + sz - 8) (HDRP (bp - psz)) (PACK (sz + psz) 0)) (bp - psz) = Inr s3"
  proof -
    from h have rm: "remove_free_block v s (bp - psz) = Inr s1"
      and k: "keeps s s1 [bp - 8, HDRP (bp - psz), HDRP bp]" and i: "in_heap s (bp + sz - 8) 4"
      and a: "apart (bp + sz - 8) (bp - 8)" "apart (HDRP (bp - psz)) (bp - 8)"
        "apart (HDRP (bp - psz)) (bp + sz - 8)" by simp_all
    note m = coalesce_case3_merged [OF pf ph hdr sz psz rm k i a]
    from h m show ?thesis by (simp add: d)
  qed
  have c4: "merged (tagged s2 (HDRP (bp - psz)) (bp + sz + nsz - 8) (PACK (sz + (psz + nsz)) 0)) (bp - psz) (sz + (psz + nsz))
              \<and> coalesce_bt v s bp = Inr (bp - psz, s3)"
    if h: "pf AND 1 = 0 \<and> nh AND 1 = 0
            \<and> GET s (bp + sz + nsz - 8) = Inr nh
            \<and> remove_free_block v s (bp - psz) = Inr s1
            \<and> keeps s s1 [HDRP bp]
            \<and> remove_free_block v s1 (bp + sz) = Inr s2
            \<and> keeps s s2 [bp - 8, HDRP (bp - psz), HDRP bp, HDRP (bp + sz), bp + sz + nsz - 8]
            \<and> apart (HDRP (bp - psz)) (HDRP bp)
            \<and> apart (HDRP (bp - psz)) (HDRP (bp + sz))
            \<and> apart (HDRP (bp - psz)) (bp - 8)
            \<and> apart (HDRP (bp - psz)) (bp + sz + nsz - 8)
            \<and> apart (bp + sz + nsz - 8) (bp - 8)
            \<and> add_free_block v (tagged s2 (HDRP (bp - psz)) (bp + sz + nsz - 8) (PACK (sz + (psz + nsz)) 0)) (bp - psz) = Inr s3"
  proof -
    from h have nf: "GET s (bp + sz + nsz - 8) = Inr nh"
      and rm1: "remove_free_block v s (bp - psz) = Inr s1" and k1: "keeps s s1 [HDRP bp]"
      and rm2: "remove_free_block v s1 (bp + sz) = Inr s2"
      and k2: "keeps s s2 [bp - 8, HDRP (bp - psz), HDRP bp, HDRP (bp + sz), bp + sz + nsz - 8]"
      and a: "apart (HDRP (bp - psz)) (HDRP bp)" "apart (HDRP (bp - psz)) (HDRP (bp + sz))"
        "apart (HDRP (bp - psz)) (bp - 8)" "apart (HDRP (bp - psz)) (bp + sz + nsz - 8)"
        "apart (bp + sz + nsz - 8) (bp - 8)" by simp_all
    note m = coalesce_case4_merged [OF pf ph hdr nh nf sz psz nsz rm1 k1 rm2 k2 a]
    from h m show ?thesis by (simp add: d)
  qed
  from c1 c2 c3 c4 show ?thesis by blast
qed

theorem coalesce_four_cases_witness:
  "(GET (heap_of both_allocated) ((ptr_of both_allocated) - 8) = Inr 9
     \<and> GET (heap_of both_allocated) (HDRP (ptr_of both_allocated)) = Inr 16
     \<and> GET (heap_of both_allocated) (HDRP ((ptr_of both_allocated) + 16)) = Inr 17
     \<and> (\<exists>s3. add_free_block Explicit (heap_of both_allocated) (ptr_of both_allocated) = Inr s3
          \<and> coalesce_bt Explicit (heap_of both_allocated) (ptr_of both_allocated) = Inr ((ptr_of both_allocated), s3) \<and> listp s3 = (ptr_of both_allocated)))
   \<and> (GET (heap_of next_free) (HDRP ((ptr_of next_free) + 16)) = Inr 4096
     \<and> remove_free_block Explicit (heap_of next_free) ((ptr_of next_free) + 16) = Inr ((heap_of next_free)\<lparr>listp := NULL\<rparr>)
     \<and> merged (tagged ((heap_of next_free)\<lparr>listp := NULL\<rparr>) (HDRP (ptr_of next_free)) ((ptr_of next_free) + (16 + 4096) - 8) (PACK (16 + 4096) 0)) (ptr_of next_free) (16 + 4096)
     \<and> (\<exists>s3. add_free_block Explicit (tagged ((heap_of next_free)\<lparr>listp := NULL\<rparr>) (HDRP (ptr_of next_free)) ((ptr_of next_free) + (16 + 4096) - 8) (PACK (16 + 4096) 0)) (ptr_of next_free) = Inr s3
          \<and> coalesce_bt Explicit (heap_of next_free) (ptr_of next_free) = Inr ((ptr_of next_free), s3) \<and> listp s3 = (ptr_of next_free)))
   \<and> (GET (heap_of prev_free) ((ptr_of prev_free) - 8) = Inr 16
     \<and> GET (heap_of prev_free) (HDRP ((ptr_of prev_free) + 16)) = Inr 17
     \<and> remove_free_block Explicit (heap_of prev_free) ((ptr_of prev_free) - 16) = Inr ((heap_of prev_free)\<lparr>listp := 0x10040\<rparr>)
     \<and> merged (tagged ((heap_of prev_free)\<lparr>listp := 0x10040\<rparr>) ((ptr_of prev_free) + 16 - 8) (HDRP ((ptr_of prev_free) - 16)) (PACK (16 + 16) 0)) ((ptr_of prev_free) - 16) (16 + 16)
     \<and> (\<exists>s3. add_free_block Explicit (tagged ((heap_of prev_free)\<lparr>listp := 0x10040\<rparr>) ((ptr_of prev_free) + 16 - 8) (HDRP ((ptr_of prev_free) - 16)) (PACK (16 + 16) 0)) ((ptr_of prev_free) - 16) = Inr s3
          \<and> coalesce_bt Explicit (heap_of prev_free) (ptr_of prev_free) = Inr ((ptr_of prev_free) - 16, s3) \<and> listp s3 = (ptr_of prev_free) - 16))
   \<and> (GET (heap_of both_free) ((ptr_of both_free) - 8) = Inr 16
     \<and> GET (heap_of both_free) (HDRP ((ptr_of both_free) + 16)) = Inr 4080
     \<and> remove_free_block Explicit (heap_of both_free) ((ptr_of both_free) - 16) = Inr ((heap_of both_free)\<lparr>listp := 0x10030\<rparr>)
     \<and> remove_free_block Explicit ((heap_of both_free)\<lparr>listp := 0x10030\<rparr>) ((ptr_of both_free) + 16) = Inr ((heap_of both_free)\<lparr>listp := NULL\<rparr>)
     \<and> merged (tagged ((heap_of both_free)\<lparr>listp := NULL\<rparr>) (HDRP ((ptr_of both_free) - 16)) ((ptr_of both_free) + 16 + 4080 - 8) (PACK (16 + (16 + 4080)) 0)) ((ptr_of both_free) - 16) (16 + (16 + 4080))
     \<and> (\<exists>s3. add_free_block Explicit (tagged ((heap_of both_free)\<lparr>listp := NULL\<rparr>) (HDRP ((ptr_of both_free) - 16)) ((ptr_of both_free) + 16 + 4080 - 8) (PACK (16 + (16 + 4080)) 0)) ((ptr_of both_free) - 16) = Inr s3
          \<and> coalesce_bt Explicit (heap_of both_free) (ptr_of both_free) = Inr ((ptr_of both_free) - 16, s3) \<and> listp s3 = (ptr_of both_free) - 16))"
proof -
  have w1: "GET (heap_of both_allocated) ((ptr_of both_allocated) - 8) = Inr 9
     \<and> GET (heap_of both_allocated) (HDRP (ptr_of both_allocated)) = Inr 16
     \<and> GET (heap_of both_allocated) (HDRP ((ptr_of both_allocated) + 16)) = Inr 17
     \<and> (\<exists>s3. add_free_block Explicit (heap_of both_allocated) (ptr_of both_allocated) = Inr s3
          \<and> coalesce_bt Explicit (heap_of both_allocated) (ptr_of both_allocated) = Inr ((ptr_of both_allocated), s3) \<and> listp s3 = (ptr_of both_allocated))"
  proof (cases both_allocated)
    case (Inl e)
    from both_allocated_run show ?thesis unfolding Inl by simp
  next
    case (Inr x)
    obtain bp s where x: "x = (bp, s)" by (cases x)
    have hs: "heap_of both_allocated = s" "ptr_of both_allocated = bp"
      unfolding heap_of_def ptr_of_def Inr x by simp_all
    from both_allocated_run have f: "bp = 0x10010" "mem_heap s = 0x10000" "mem_brk s = 0x11020" "listp s = 0x10030" "GET s 0x10008 = Inr 9" "GET s 0x10004 = Inr 9" "GET s 0x1000C = Inr 16" "GET s 0x1001C = Inr 17"
      unfolding Inr x by simp_all
    have pre: "Explicit = Explicit \<or> Explicit = SegFit" "GET s (bp - 8) = Inr 9"
      "GET s (HDRP (bp - 8)) = Inr 9" "GET s (HDRP bp) = Inr 16" "GET s (HDRP (bp + 16)) = Inr 17"
      "(16 :: word32) = 16 AND NOT 7" "(8 :: word32) = 9 AND NOT 7" "(16 :: word32) = 17 AND NOT 7"
      using f by (simp_all add: HDRP_def)
    have "\<exists>s3. add_free_block Explicit (s) (bp) = Inr s3 \<and> listp s3 = bp"
      using add_free_block_explicit_effects [of "s" "bp"] f
      by (auto simp add: add_free_block_def tagged_def in_heap_def apart_def)
    then obtain s3 where a: "add_free_block Explicit (s) (bp) = Inr s3" "listp s3 = bp"
      by blast
    have c: "(9 :: word32) AND 1 \<noteq> 0 \<and> (17 :: word32) AND 1 \<noteq> 0
        \<and> add_free_block Explicit s bp = Inr s3"
      using a by simp
    from coalesce_four_cases [where ?s1.0 = s and ?s2.0 = s and ?s3.0 = s3, OF pre] c
    have r: "coalesce_bt Explicit s bp = Inr (bp, s3)" by blast
    from pre a r show ?thesis unfolding hs by blast
  qed
  have w2: "GET (heap_of next_free) (HDRP ((ptr_of next_free) + 16)) = Inr 4096
     \<and> remove_free_block Explicit (heap_of next_free) ((ptr_of next_free) + 16) = Inr ((heap_of next_free)\<lparr>listp := NULL\<rparr>)
     \<and> merged (tagged ((heap_of next_free)\<lparr>listp := NULL\<rparr>) (HDRP (ptr_of next_free)) ((ptr_of next_free) + (16 + 4096) - 8) (PACK (16 + 4096) 0)) (ptr_of next_free) (16 + 4096)
     \<and> (\<exists>s3. add_free_block Explicit (tagged ((heap_of next_free)\<lparr>listp := NULL\<rparr>) (HDRP (ptr_of next_free)) ((ptr_of next_free) + (16 + 4096) - 8) (PACK (16 + 4096) 0)) (ptr_of next_free) = Inr s3
          \<and> coalesce_bt Explicit (heap_of next_free) (ptr_of next_free) = Inr ((ptr_of next_free), s3) \<and> listp s3 = (ptr_of next_free))"
  proof (cases next_free)
    case (Inl e)
    from next_free_run show ?thesis unfolding Inl by simp
  next
    case (Inr x)
    obtain bp s where x: "x = (bp, s)" by (cases x)
    have hs: "heap_of next_free = s" "ptr_of next_free = bp"
      unfolding heap_of_def ptr_of_def Inr x by simp_all
    from next_free_run have f: "bp = 0x10010" "mem_heap s = 0x10000" "mem_brk s = 0x11020" "listp s = 0x10020" "GET s 0x10008 = Inr 9" "GET s 0x10004 = Inr 9" "GET s 0x1000C = Inr 16" "GET s 0x1001C = Inr 4096" "GET_SUCC s 0x10020 = Inr 0"
      unfolding Inr x by simp_all
    have pre: "Explicit = Explicit \<or> Explicit = SegFit" "GET s (bp - 8) = Inr 9"
      "GET s (HDRP (bp - 8)) = Inr 9" "GET s (HDRP bp) = Inr 16" "GET s (HDRP (bp + 16)) = Inr 4096"
      "(16 :: word32) = 16 AND NOT 7" "(8 :: word32) = 9 AND NOT 7" "(4096 :: word32) = 4096 AND NOT 7"
      using f by (simp_all add: HDRP_def)
    have rm: "remove_free_block Explicit s (bp + 16) = Inr (s\<lparr>listp := NULL\<rparr>)"
      using remove_head_explicit [of s 0] f by simp
    have "\<exists>s3. add_free_block Explicit (tagged (s\<lparr>listp := NULL\<rparr>) (HDRP bp) (bp + (16 + 4096) - 8) (PACK (16 + 4096) 0)) (bp) = Inr s3 \<and> listp s3 = bp"
      using add_free_block_explicit_effects [of "tagged (s\<lparr>listp := NULL\<rparr>) (HDRP bp) (bp + (16 + 4096) - 8) (PACK (16 + 4096) 0)" "bp"] f
      by (auto simp add: add_free_block_def tagged_def in_heap_def apart_def)
    then obtain s3 where a: "add_free_block Explicit (tagged (s\<lparr>listp := NULL\<rparr>) (HDRP bp) (bp + (16 + 4096) - 8) (PACK (16 + 4096) 0)) (bp) = Inr s3" "listp s3 = bp"
      by blast
    have c: "(9 :: word32) AND 1 \<noteq> 0 \<and> (4096 :: word32) AND 1 = 0
        \<and> remove_free_block Explicit s (bp + 16) = Inr (s\<lparr>listp := NULL\<rparr>)
        \<and> keeps s (s\<lparr>listp := NULL\<rparr>) [HDRP bp, HDRP (bp + 16)]
        \<and> in_heap s (bp + (16 + 4096) - 8) 4
        \<and> apart (HDRP bp) (bp + (16 + 4096) - 8)
        \<and> add_free_block Explicit (tagged (s\<lparr>listp := NULL\<rparr>) (HDRP bp) (bp + (16 + 4096) - 8) (PACK (16 + 4096) 0)) bp = Inr s3"
      using rm a f by (simp add: keeps_listp in_heap_def apart_def HDRP_def)
    from coalesce_four_cases [where ?s1.0 = "s\<lparr>listp := NULL\<rparr>" and ?s2.0 = s
        and ?s3.0 = s3, OF pre] c
    have r: "merged (tagged (s\<lparr>listp := NULL\<rparr>) (HDRP bp) (bp + (16 + 4096) - 8) (PACK (16 + 4096) 0)) bp (16 + 4096)
        \<and> coalesce_bt Explicit s bp = Inr (bp, s3)" by blast
    from pre rm a r show ?thesis unfolding hs by blast
  qed
  have w3: "GET (heap_of prev_free) ((ptr_of prev_free) - 8) = Inr 16
     \<and> GET (heap_of prev_free) (HDRP ((ptr_of prev_free) + 16)) = Inr 17
     \<and> remove_free_block Explicit (heap_of prev_free) ((ptr_of prev_free) - 16) = Inr ((heap_of prev_free)\<lparr>listp := 0x10040\<rparr>)
     \<and> merged (tagged ((heap_of prev_free)\<lparr>listp := 0x10040\<rparr>) ((ptr_of prev_free) + 16 - 8) (HDRP ((ptr_of prev_free) - 16)) (PACK (16 + 16) 0)) ((ptr_of prev_free) - 16) (16 + 16)
     \<and> (\<exists>s3. add_free_block Explicit (tagged ((heap_of prev_free)\<lparr>listp := 0x10040\<rparr>) ((ptr_of prev_free) + 16 - 8) (HDRP ((ptr_of prev_free) - 16)) (PACK (16 + 16) 0)) ((ptr_of prev_free) - 16) = Inr s3
          \<and> coalesce_bt Explicit (heap_of prev_free) (ptr_of prev_free) = Inr ((ptr_of prev_free) - 16, s3) \<and> listp s3 = (ptr_of prev_free) - 16)"
  proof (cases prev_free)
    case (Inl e)
    from prev_free_run show ?thesis unfolding Inl by simp
  next
    case (Inr x)
    obtain bp s where x: "x = (bp, s)" by (cases x)
    have hs: "heap_of prev_free = s" "ptr_of prev_free = bp"
      unfolding heap_of_def ptr_of_def Inr x by simp_all
    from prev_free_run have f: "bp = 0x10020" "mem_heap s = 0x10000" "mem_brk s = 0x11020" "listp s = 0x10010" "GET s 0x10018 = Inr 16" "GET s 0x1000C = Inr 16" "GET s 0x1001C = Inr 16" "GET s 0x1002C = Inr 17" "GET_SUCC s 0x10010 = Inr 0x10040"
      unfolding Inr x by simp_all
    have pre: "Explicit = Explicit \<or> Explicit = SegFit" "GET s (bp - 8) = Inr 16"
      "GET s (HDRP (bp - 16)) = Inr 16" "GET s (HDRP bp) = Inr 16" "GET s (HDRP (bp + 16)) = Inr 17"
      "(16 :: word32) = 16 AND NOT 7" "(16 :: word32) = 16 AND NOT 7" "(16 :: word32) = 17 AND NOT 7"
      using f by (simp_all add: HDRP_def)
    have rm: "remove_free_block Explicit s (bp - 16) = Inr (s\<lparr>listp := 0x10040\<rparr>)"
      using remove_head_explicit [of s "0x10040"] f by simp
    have "\<exists>s3. add_free_block Explicit (tagged (s\<lparr>listp := 0x10040\<rparr>) (bp + 16 - 8) (HDRP (bp - 16)) (PACK (16 + 16) 0)) (bp - 16) = Inr s3 \<and> listp s3 = bp - 16"
      using add_free_block_explicit_effects [of "tagged (s\<lparr>listp := 0x10040\<rparr>) (bp + 16 - 8) (HDRP (bp - 16)) (PACK (16 + 16) 0)" "bp - 16"] f
      by (auto simp add: add_free_block_def tagged_def in_heap_def apart_def)
    then obtain s3 where a: "add_free_block Explicit (tagged (s\<lparr>listp := 0x10040\<rparr>) (bp + 16 - 8) (HDRP (bp - 16)) (PACK (16 + 16) 0)) (bp - 16) = Inr s3" "listp s3 = bp - 16"
      by blast
    have c: "(16 :: word32) AND 1 = 0 \<and> (17 :: word32) AND 1 \<noteq> 0
        \<and> remove_free_block Explicit s (bp - 16) = Inr (s\<lparr>listp := 0x10040\<rparr>)
        \<and> keeps s (s\<lparr>listp := 0x10040\<rparr>) [bp - 8, HDRP (bp - 16), HDRP bp]
        \<and> in_heap s (bp + 16 - 8) 4
        \<and> apart (bp + 16 - 8) (bp - 8)
        \<and> apart (HDRP (bp - 16)) (bp - 8)
        \<and> apart (HDRP (bp - 16)) (bp + 16 - 8)
        \<and> add_free_block Explicit (tagged (s\<lparr>listp := 0x10040\<rparr>) (bp + 16 - 8) (HDRP (bp - 16)) (PACK (16 + 16) 0)) (bp - 16) = Inr s3"
      using rm a f by (simp add: keeps_listp in_heap_def apart_def HDRP_def)
    from coalesce_four_cases [where ?s1.0 = "s\<lparr>listp := 0x10040\<rparr>" and ?s2.0 = s
        and ?s3.0 = s3, OF pre] c
    have r: "merged (tagged (s\<lparr>listp := 0x10040\<rparr>) (bp + 16 - 8) (HDRP (bp - 16)) (PACK (16 + 16) 0)) (bp - 16) (16 + 16)
        \<and> coalesce_bt Explicit s bp = Inr (bp - 16, s3)" by blast
    from pre rm a r show ?thesis unfolding hs by blast
  qed
  have w4: "GET (heap_of both_free) ((ptr_of both_free) - 8) = Inr 16
     \<and> GET (heap_of both_free) (HDRP ((ptr_of both_free) + 16)) = Inr 4080
     \<and> remove_free_block Explicit (heap_of both_free) ((ptr_of both_free) - 16) = Inr ((heap_of both_free)\<lparr>listp := 0x10030\<rparr>)
     \<and> remove_free_block Explicit ((heap_of both_free)\<lparr>listp := 0x10030\<rparr>) ((ptr_of both_free) + 16) = Inr ((heap_of both_free)\<lparr>listp := NULL\<rparr>)
     \<and> merged (tagged ((heap_of both_free)\<lparr>listp := NULL\<rparr>) (HDRP ((ptr_of both_free) - 16)) ((ptr_of both_free) + 16 + 4080 - 8) (PACK (16 + (16 + 4080)) 0)) ((ptr_of both_free) - 16) (16 + (16 + 4080))
     \<and> (\<exists>s3. add_free_block Explicit (tagged ((heap_of both_free)\<lparr>listp := NULL\<rparr>) (HDRP ((ptr_of both_free) - 16)) ((ptr_of both_free) + 16 + 4080 - 8) (PACK (16 + (16 + 4080)) 0)) ((ptr_of both_free) - 16) = Inr s3
          \<and> coalesce_bt Explicit (heap_of both_free) (ptr_of both_free) = Inr ((ptr_of both_free) - 16, s3) \<and> listp s3 = (ptr_of both_free) - 16)"
  proof (cases both_free)
    case (Inl e)
    from both_free_run show ?thesis unfolding Inl by simp
  next
    case (Inr x)
    obtain bp s where x: "x = (bp, s)" by (cases x)
    have hs: "heap_of both_free = s" "ptr_of both_free = bp"
      unfolding heap_of_def ptr_of_def Inr x by simp_all
    from both_free_run have f: "bp = 0x10020" "mem_heap s = 0x10000" "mem_brk s = 0x11020" "listp s = 0x10010" "GET s 0x10018 = Inr 16" "GET s 0x1000C = Inr 16" "GET s 0x1001C = Inr 16" "GET s 0x1002C = Inr 4080" "GET s 0x11018 = Inr 4080" "GET_SUCC s 0x10010 = Inr 0x10030" "GET_SUCC s 0x10030 = Inr 0"
      unfolding Inr x by simp_all
    have pre: "Explicit = Explicit \<or> Explicit = SegFit" "GET s (bp - 8) = Inr 16"
      "GET s (HDRP (bp - 16)) = Inr 16" "GET s (HDRP bp) = Inr 16" "GET s (HDRP (bp + 16)) = Inr 4080"
      "(16 :: word32) = 16 AND NOT 7" "(16 :: word32) = 16 AND NOT 7" "(4080 :: word32) = 4080 AND NOT 7"
      using f by (simp_all add: HDRP_def)
    have rm1: "remove_free_block Explicit s (bp - 16) = Inr (s\<lparr>listp := 0x10030\<rparr>)"
      using remove_head_explicit [of s "0x10030"] f by simp
    have rm2: "remove_free_block Explicit (s\<lparr>listp := 0x10030\<rparr>) (bp + 16) = Inr (s\<lparr>listp := NULL\<rparr>)"
    proof -
      have "GET_SUCC (s\<lparr>listp := 0x10030\<rparr>) (listp (s\<lparr>listp := 0x10030\<rparr>)) = Inr 0"
        using f by (simp add: GET_SUCC_listp_upd)
      from remove_head_explicit [OF this] f show ?thesis by simp
    qed
    have "\<exists>s3. add_free_block Explicit (tagged (s\<lparr>listp := NULL\<rparr>) (HDRP (bp - 16)) (bp + 16 + 4080 - 8) (PACK (16 + (16 + 4080)) 0)) (bp - 16) = Inr s3 \<and> listp s3 = bp - 16"
      using add_free_block_explicit_effects [of "tagged (s\<lparr>listp := NULL\<rparr>) (HDRP (bp - 16)) (bp + 16 + 4080 - 8) (PACK (16 + (16 + 4080)) 0)" "bp - 16"] f
      by (auto simp add: add_free_block_def tagged_def in_heap_def apart_def)
    then obtain s3 where a: "add_free_block Explicit (tagged (s\<lparr>listp := NULL\<rparr>) (HDRP (bp - 16)) (bp + 16 + 4080 - 8) (PACK (16 + (16 + 4080)) 0)) (bp - 16) = Inr s3" "listp s3 = bp - 16"
      by blast
    have c: "(16 :: word32) AND 1 = 0 \<and> (4080 :: word32) AND 1 = 0
        \<and> GET s (bp + 16 + 4080 - 8) = Inr 4080
        \<and> remove_free_block Explicit s (bp - 16) = Inr (s\<lparr>listp := 0x10030\<rparr>)
        \<and> keeps s (s\<lparr>listp := 0x10030\<rparr>) [HDRP bp]
        \<and> remove_free_block Explicit (s\<lparr>listp := 0x10030\<rparr>) (bp + 16) = Inr (s\<lparr>listp := NULL\<rparr>)
        \<and> keeps s (s\<lparr>listp := NULL\<rparr>)
              [bp - 8, HDRP (bp - 16), HDRP bp, HDRP (bp + 16), bp + 16 + 4080 - 8]
        \<and> apart (HDRP (bp - 16)) (HDRP bp)
        \<and> apart (HDRP (bp - 16)) (HDRP (bp + 16))
        \<and> apart (HDRP (bp - 16)) (bp - 8)
        \<and> apart (HDRP (bp - 16)) (bp + 16 + 4080 - 8)
        \<and> apart (bp + 16 + 4080 - 8) (bp - 8)
        \<and> add_free_block Explicit (tagged (s\<lparr>listp := NULL\<rparr>) (HDRP (bp - 16)) (bp + 16 + 4080 - 8) (PACK (16 + (16 + 4080)) 0)) (bp - 16) = Inr s3"
      using rm1 rm2 a f by (simp add: keeps_listp apart_def HDRP_def)
    from coalesce_four_cases [where ?s1.0 = "s\<lparr>listp := 0x10030\<rparr>"
        and ?s2.0 = "s\<lparr>listp := NULL\<rparr>" and ?s3.0 = s3, OF pre] c
    have r: "merged (tagged (s\<lparr>listp := NULL\<rparr>) (HDRP (bp - 16)) (bp + 16 + 4080 - 8) (PACK (16 + (16 + 4080)) 0)) (bp - 16) (16 + (16 + 4080))
        \<and> coalesce_bt Explicit s bp = Inr (bp - 16, s3)" by blast
    from pre rm1 rm2 a r show ?thesis unfolding hs by blast
  qed
  from w1 w2 w3 w4 show ?thesis by blast
qed

section \<open>A request that wraps around, in mm-segregated-fit.c\<close>



end
